theory Spec2Isabelle
  imports Main
begin

section \<open>Legacy partition expansion (parse\_partition\_gp.c)\<close>

text \<open>
  A shallow embedding of \<^verbatim>\<open>src/backend/parser/parse_partition_gp.c\<close>: the
  START/END/EVERY bound iterator, the comparator used to sort the generated
  CREATE statements, the deduction of implicit range bounds, the merge of
  column encoding clauses and the driver \<^verbatim>\<open>generatePartitions\<close>.

  A \<^verbatim>\<open>Datum\<close> of the partition column's type is a value of the type
  variable \<open>'a\<close>; a raw (untransformed) parse tree is a value of \<open>'x\<close>.
  An \<^verbatim>\<open>ereport(ERROR)\<close> or \<^verbatim>\<open>elog(ERROR)\<close> is a value of type \<open>error\<close>,
  returned as \<open>Inl\<close>.
\<close>

subsection \<open>Errors\<close>

datatype error =
    MissingBoundarySpecification      \<comment> \<open>missing boundary specification in partition ...\<close>
  | InvalidBoundarySpecification      \<comment> \<open>invalid boundary specification for RANGE/LIST partition\<close>
  | MultiColumnRangeUnsupported       \<comment> \<open>too many columns for RANGE partition\<close>
  | InvalidNumberOfStartValues        \<comment> \<open>invalid number of start values\<close>
  | InvalidNumberOfEndValues          \<comment> \<open>invalid number of end values\<close>
  | InvalidNumberOfEveryValues        \<comment> \<open>invalid number of every values\<close>
  | NullBoundaryValue                 \<comment> \<open>cannot use NULL with range partition specification\<close>
  | EveryRequiresStartEnd             \<comment> \<open>EVERY clause requires START and END\<close>
  | PlusOperatorReturnedNull          \<comment> \<open>plus-operator returned NULL\<close>
  | NonMonotonicStep                  \<comment> \<open>EVERY parameter too small\<close>
  | RangeOverflow                     \<comment> \<open>END parameter not reached before type overflows\<close>
  | CollationMismatch                 \<comment> \<open>collation of partition bound value ... does not match\<close>
  | CannotCast                        \<comment> \<open>specified value cannot be cast to type ...\<close>
  | InvalidBoundaryArity              \<comment> \<open>VALUES specification with more than one column not allowed\<close>
  | InvalidTablenameSpecification     \<comment> \<open>invalid tablename specification\<close>
  | MultipleDefaultEncodings          \<comment> \<open>DEFAULT COLUMN ENCODING clause specified more than once\<close>
  | MultipleDefaultPartitions         \<comment> \<open>multiple default partitions are not allowed\<close>
  | NoPartitionsAtDepth nat           \<comment> \<open>no partitions specified at depth n\<close>
  | UnsupportedStrategy               \<comment> \<open>Not supported partition strategy\<close>
  | CollaboratorError string          \<comment> \<open>an error raised inside a function that is not in this file\<close>

subsection \<open>Parse nodes\<close>

text \<open>
  The nodes that this file reads or builds. \<open>Const v isnull\<close> is a transformed
  constant (\<^verbatim>\<open>constvalue\<close>, \<^verbatim>\<open>constisnull\<close>); \<open>ColumnRef fields\<close> is what
  \<^verbatim>\<open>deduceImplicitRangeBounds\<close> builds for the sentinels; \<open>A_Const_Integer\<close> is an
  \<^verbatim>\<open>A_Const\<close> whose value has type \<^verbatim>\<open>T_Integer\<close>; \<open>StringNode\<close> is a
  \<^verbatim>\<open>String\<close> value node; \<open>Expr\<close> is any other raw expression.
\<close>

datatype ('x, 'a) Node =
    Const 'a bool
  | ColumnRef "string list"
  | A_Const_Integer int
  | StringNode string
  | Expr 'x

record ('x, 'a) DefElem =
  defname :: string
  arg :: "('x, 'a) Node"

record ('x, 'a) ColumnReferenceStorageDirective =
  column :: string
  deflt :: bool
  encoding :: "('x, 'a) DefElem list"

datatype strategy = PARTITION_STRATEGY_HASH | PARTITION_STRATEGY_LIST | PARTITION_STRATEGY_RANGE

text \<open>
  \<^verbatim>\<open>PartitionBoundSpec\<close>. A \<^verbatim>\<open>List *\<close> that is \<^verbatim>\<open>NIL\<close> is the null pointer, so
  \<^verbatim>\<open>lowerdatums != NULL\<close> is \<open>lowerdatums b \<noteq> []\<close>. \<open>strategy = None\<close> is the
  zero byte that \<^verbatim>\<open>makeNode\<close> leaves when the field is not assigned.
\<close>

record ('x, 'a) PartitionBoundSpec =
  strategy :: "strategy option"
  is_default :: bool
  listdatums :: "('x, 'a) Node list"
  lowerdatums :: "('x, 'a) Node list"
  upperdatums :: "('x, 'a) Node list"

text \<open>
  A nested \<^verbatim>\<open>GpPartitionDefinition\<close> (a sub-partition specification) is carried, not
  expanded, at this level: only its \<^verbatim>\<open>istemplate\<close> flag is read.
\<close>

record 'x GpPartitionDefinition =
  istemplate :: bool
  partDefElems_raw :: 'x

record 'x PartitionSpec =
  gpPartDef :: "'x GpPartitionDefinition option"

record RangeVar =
  schemaname :: string
  relname :: string
  relpersistence :: char

text \<open>
  \<^verbatim>\<open>CreateStmt\<close>, with the fields \<^verbatim>\<open>makePartitionCreateStmt\<close> fills from its
  arguments. The fields it sets to a constant (\<^verbatim>\<open>tableElts\<close>, \<^verbatim>\<open>ofTypename\<close>,
  \<^verbatim>\<open>constraints\<close>, \<^verbatim>\<open>oncommit\<close>, \<^verbatim>\<open>if_not_exists\<close>, \<^verbatim>\<open>partitionBy\<close>,
  \<^verbatim>\<open>relKind\<close>) and the distribution policy are left out. The three fields that
  share a name with a field of \<^verbatim>\<open>GpPartDefElem\<close> carry the prefix \<open>stmt_\<close>.
\<close>

record ('x, 'a) CreateStmt =
  relation :: RangeVar
  inhRelations :: "RangeVar list"
  partbound :: "('x, 'a) PartitionBoundSpec"
  partspec :: "'x PartitionSpec option"
  stmt_options :: "('x, 'a) DefElem list"
  stmt_tablespacename :: "string option"
  stmt_accessMethod :: "string option"
  ownerid :: nat
  attr_encodings :: "('x, 'a) ColumnReferenceStorageDirective list"

text \<open>
  \<^verbatim>\<open>PartitionKeyData\<close>: the strategy, the number of key columns and, per column,
  the three-way comparison support function (called with the column's collation) and
  the collation's Oid.
\<close>

record 'a PartitionKey =
  key_strategy :: strategy
  partnatts :: nat
  partsupfunc :: "nat \<Rightarrow> 'a \<Rightarrow> 'a \<Rightarrow> int"
  partcollation :: "nat \<Rightarrow> nat"

subsection \<open>qsort\_stmt\_cmp\<close>

text \<open>
  \<^verbatim>\<open>lfirst(list_nth_cell(datums, i))->constvalue\<close>. The source reads past the end of
  a list that is shorter than \<^verbatim>\<open>partnatts\<close>, and reads \<^verbatim>\<open>constvalue\<close> of whatever
  node is there; both are undefined in C and are \<open>None\<close> here.
\<close>

definition nth_constvalue :: "('x, 'a) Node list \<Rightarrow> nat \<Rightarrow> 'a option" where
  "nth_constvalue datums i =
     (if i < length datums
      then (case datums ! i of Const v isnull \<Rightarrow> Some v | _ \<Rightarrow> None)
      else None)"

text \<open>
  The column loop shared by the four branches:
  \<^verbatim>\<open>for (i = 0; i < partnatts; i++) { cmpval = ...; if (cmpval != 0) break; }\<close>
  with \<^verbatim>\<open>cmpval\<close> initially 0. The third argument is the current \<^verbatim>\<open>i\<close>, the
  fourth the number of columns still to visit.
\<close>

fun cmp_datums ::
  "(nat \<Rightarrow> 'a \<Rightarrow> 'a \<Rightarrow> int) \<Rightarrow> ('x, 'a) Node list \<Rightarrow> ('x, 'a) Node list \<Rightarrow> nat \<Rightarrow> nat \<Rightarrow> int option"
where
  "cmp_datums supfn d1 d2 i 0 = Some 0"
| "cmp_datums supfn d1 d2 i (Suc n) =
     (case nth_constvalue d1 i of
        None \<Rightarrow> None
      | Some v1 \<Rightarrow>
          (case nth_constvalue d2 i of
             None \<Rightarrow> None
           | Some v2 \<Rightarrow>
               (let cmpval = supfn i v1 v2
                in if cmpval \<noteq> 0 then Some cmpval else cmp_datums supfn d1 d2 (Suc i) n)))"

definition qsort_stmt_cmp ::
  "'a PartitionKey \<Rightarrow> ('x, 'a) CreateStmt \<Rightarrow> ('x, 'a) CreateStmt \<Rightarrow> int option"
where
  "qsort_stmt_cmp partKey b1cstmt b2cstmt =
     (let b1 = partbound b1cstmt;
          b2 = partbound b2cstmt;
          b1lowerdatums = lowerdatums b1;
          b2lowerdatums = lowerdatums b2;
          b1upperdatums = upperdatums b1;
          b2upperdatums = upperdatums b2
      in if is_default b1 \<noteq> is_default b2 then
           (if is_default b2 then Some 1 else Some (- 1))
         else if b1lowerdatums \<noteq> [] \<and> b2lowerdatums \<noteq> [] then
           cmp_datums (partsupfunc partKey) b1lowerdatums b2lowerdatums 0 (partnatts partKey)
         else if b1upperdatums \<noteq> [] \<and> b2upperdatums \<noteq> [] then
           cmp_datums (partsupfunc partKey) b1upperdatums b2upperdatums 0 (partnatts partKey)
         else if b1lowerdatums \<noteq> [] \<and> b2upperdatums \<noteq> [] then
           (case cmp_datums (partsupfunc partKey) b1lowerdatums b2upperdatums 0 (partnatts partKey) of
              None \<Rightarrow> None
            | Some cmpval \<Rightarrow> if cmpval = 0 then Some 1 else Some cmpval)
         else if b1upperdatums \<noteq> [] \<and> b2lowerdatums \<noteq> [] then
           cmp_datums (partsupfunc partKey) b1upperdatums b2lowerdatums 0 (partnatts partKey)
         else Some 0)"

subsection \<open>deduceImplicitRangeBounds\<close>

text \<open>
  \<^verbatim>\<open>list_qsort\<close> (the list is copied into an array, sorted with \<^verbatim>\<open>qsort_arg\<close> and
  rebuilt) is not part of this file, so the sort is a parameter of every function that
  sorts: it is given the comparator and the list, and gives the sorted list, or \<open>None\<close>
  where a comparison is undefined.

  The loop after the sort visits the statements from left to right. \<open>prevstmt\<close> is the
  statement visited before, with the bounds it was given; the look-ahead reads the
  next statement as it is before its own visit.
\<close>

fun deduce_loop ::
  "('x, 'a) CreateStmt option \<Rightarrow> ('x, 'a) CreateStmt list \<Rightarrow> ('x, 'a) CreateStmt list"
where
  "deduce_loop prevstmt [] = []"
| "deduce_loop prevstmt (stmt # rest) =
     (let stmt1 =
            (if lowerdatums (partbound stmt) = [] then
               (case prevstmt of
                  Some p \<Rightarrow>
                    stmt\<lparr>partbound := (partbound stmt)\<lparr>lowerdatums := upperdatums (partbound p)\<rparr>\<rparr>
                | None \<Rightarrow>
                    stmt\<lparr>partbound := (partbound stmt)\<lparr>lowerdatums := [ColumnRef [''minvalue'']]\<rparr>\<rparr>)
             else stmt);
          stmt2 =
            (if upperdatums (partbound stmt1) = [] then
               (case rest of
                  nextstmt # _ \<Rightarrow>
                    stmt1\<lparr>partbound := (partbound stmt1)\<lparr>upperdatums := lowerdatums (partbound nextstmt)\<rparr>\<rparr>
                | [] \<Rightarrow>
                    stmt1\<lparr>partbound := (partbound stmt1)\<lparr>upperdatums := [ColumnRef [''maxvalue'']]\<rparr>\<rparr>)
             else stmt1)
      in stmt2 # deduce_loop (Some stmt2) rest)"

definition deduceImplicitRangeBounds ::
  "((('x, 'a) CreateStmt \<Rightarrow> ('x, 'a) CreateStmt \<Rightarrow> int option) \<Rightarrow>
      ('x, 'a) CreateStmt list \<Rightarrow> ('x, 'a) CreateStmt list option) \<Rightarrow>
   ('x, 'a) CreateStmt list \<Rightarrow> 'a PartitionKey \<Rightarrow> ('x, 'a) CreateStmt list option"
where
  "deduceImplicitRangeBounds qsort origstmts key =
     (case qsort (qsort_stmt_cmp key) origstmts of
        None \<Rightarrow> None
      | Some stmts \<Rightarrow> Some (deduce_loop None stmts))"

subsection \<open>A sort to run the examples with\<close>

text \<open>
  \<open>in_cmp_order cmp xs\<close>: no statement of \<open>xs\<close> compares greater than the one right
  after it. Whatever the sort does, a list it leaves in this state for a comparator
  that is defined on it is what the walk of \<open>deduce_loop\<close> then reads.
\<close>

fun in_cmp_order :: "('s \<Rightarrow> 's \<Rightarrow> int option) \<Rightarrow> 's list \<Rightarrow> bool" where
  "in_cmp_order cmp [] = True"
| "in_cmp_order cmp [x] = True"
| "in_cmp_order cmp (x # y # ys) =
     (case cmp x y of None \<Rightarrow> False | Some c \<Rightarrow> c \<le> 0 \<and> in_cmp_order cmp (y # ys))"

text \<open>
  An insertion sort, the instance of the sort parameter in the closed examples below.
  \<open>insert_back cmp x ys\<close> takes the sorted prefix in reverse (\<open>ys\<close>, last element
  first) and moves \<open>x\<close> towards the front while the element before it compares
  greater.
\<close>

fun insert_back :: "('s \<Rightarrow> 's \<Rightarrow> int option) \<Rightarrow> 's \<Rightarrow> 's list \<Rightarrow> 's list option" where
  "insert_back cmp x [] = Some [x]"
| "insert_back cmp x (y # ys) =
     (case cmp y x of
        None \<Rightarrow> None
      | Some c \<Rightarrow>
          if c > 0 then map_option (\<lambda>zs. y # zs) (insert_back cmp x ys)
          else Some (x # y # ys))"

fun insertion_loop :: "('s \<Rightarrow> 's \<Rightarrow> int option) \<Rightarrow> 's list \<Rightarrow> 's list \<Rightarrow> 's list option" where
  "insertion_loop cmp done [] = Some (rev done)"
| "insertion_loop cmp done (x # xs) =
     (case insert_back cmp x done of
        None \<Rightarrow> None
      | Some done' \<Rightarrow> insertion_loop cmp done' xs)"

definition insertion_qsort :: "('s \<Rightarrow> 's \<Rightarrow> int option) \<Rightarrow> 's list \<Rightarrow> 's list option" where
  "insertion_qsort cmp xs = insertion_loop cmp [] xs"

subsection \<open>Concrete inputs\<close>

text \<open>
  An integer key column with \<^verbatim>\<open>btint4cmp\<close> as its support function, and statements
  with given bounds, for the closed examples.
\<close>

definition int_key :: "strategy \<Rightarrow> int PartitionKey" where
  "int_key s =
     \<lparr>key_strategy = s, partnatts = 1,
      partsupfunc = (\<lambda>i x y. if x < y then - 1 else if x = y then 0 else 1),
      partcollation = (\<lambda>i. 0)\<rparr>"

definition bound_stmt ::
  "string \<Rightarrow> bool \<Rightarrow> int list \<Rightarrow> int list \<Rightarrow> (unit, int) CreateStmt"
where
  "bound_stmt name dflt lower upper =
     \<lparr>relation = \<lparr>schemaname = ''public'', relname = name, relpersistence = CHR ''p''\<rparr>,
      inhRelations = [\<lparr>schemaname = ''public'', relname = ''t'', relpersistence = CHR ''p''\<rparr>],
      partbound =
        \<lparr>strategy = (if dflt then None else Some PARTITION_STRATEGY_RANGE),
         is_default = dflt, listdatums = [],
         lowerdatums = map (\<lambda>v. Const v False) lower,
         upperdatums = map (\<lambda>v. Const v False) upper\<rparr>,
      partspec = None, stmt_options = [], stmt_tablespacename = None,
      stmt_accessMethod = None, ownerid = 10, attr_encodings = []\<rparr>"

subsection \<open>merge\_partition\_encoding\<close>

text \<open>
  \<^verbatim>\<open>split_encoding_clauses\<close> appends to \<^verbatim>\<open>*non_def\<close> and sets \<^verbatim>\<open>*def\<close>; the two
  out-parameters are the second and third argument, and the result.
\<close>

fun split_encoding_clauses ::
  "('x, 'a) ColumnReferenceStorageDirective list \<Rightarrow>
   ('x, 'a) ColumnReferenceStorageDirective list \<Rightarrow>
   ('x, 'a) ColumnReferenceStorageDirective option \<Rightarrow>
   error + (('x, 'a) ColumnReferenceStorageDirective list \<times>
            ('x, 'a) ColumnReferenceStorageDirective option)"
where
  "split_encoding_clauses [] non_def def = Inr (non_def, def)"
| "split_encoding_clauses (c # encs) non_def def =
     (if deflt c then
        (if def \<noteq> None then Inl MultipleDefaultEncodings
         else split_encoding_clauses encs non_def (Some c))
      else split_encoding_clauses encs (non_def @ [c]) def)"

text \<open>The inner loop: is the column of \<open>pd\<close> mentioned in \<open>elem_nondefs\<close>?\<close>

fun column_found ::
  "('x, 'a) ColumnReferenceStorageDirective \<Rightarrow>
   ('x, 'a) ColumnReferenceStorageDirective list \<Rightarrow> bool"
where
  "column_found pd [] = False"
| "column_found pd (ed # elem_nondefs) =
     (if column pd = column ed then True else column_found pd elem_nondefs)"

text \<open>
  The outer loop over \<open>part_nondefs\<close>. \<^verbatim>\<open>lappend\<close> extends \<open>elem_colencs\<close>;
  \<open>elem_nondefs\<close> is a list of its own and does not grow.
\<close>

fun add_part_nondefs ::
  "('x, 'a) ColumnReferenceStorageDirective list \<Rightarrow>
   ('x, 'a) ColumnReferenceStorageDirective list \<Rightarrow>
   ('x, 'a) ColumnReferenceStorageDirective list \<Rightarrow>
   ('x, 'a) ColumnReferenceStorageDirective list"
where
  "add_part_nondefs [] elem_nondefs elem_colencs = elem_colencs"
| "add_part_nondefs (pd # part_nondefs) elem_nondefs elem_colencs =
     add_part_nondefs part_nondefs elem_nondefs
       (if \<not> column_found pd elem_nondefs then elem_colencs @ [pd] else elem_colencs)"

definition merge_partition_encoding ::
  "('x, 'a) ColumnReferenceStorageDirective list \<Rightarrow>
   ('x, 'a) ColumnReferenceStorageDirective list \<Rightarrow>
   error + ('x, 'a) ColumnReferenceStorageDirective list"
where
  "merge_partition_encoding elem_colencs penc =
     (if penc = [] then Inr elem_colencs
      else if elem_colencs = [] then Inr penc
      else
        (case split_encoding_clauses elem_colencs [] None of
           Inl e \<Rightarrow> Inl e
         | Inr (elem_nondefs, elem_def) \<Rightarrow>
             (case split_encoding_clauses penc [] None of
                Inl e \<Rightarrow> Inl e
              | Inr (part_nondefs, part_def) \<Rightarrow>
                  (let elem_colencs' = add_part_nondefs part_nondefs elem_nondefs elem_colencs
                   in if elem_def \<noteq> None then Inr elem_colencs'
                      else (case part_def of
                              Some d \<Rightarrow> Inr (elem_colencs' @ [d])
                            | None \<Rightarrow> Inr elem_colencs')))))"

text \<open>Directives for the closed examples.\<close>

definition column_enc :: "string \<Rightarrow> string \<Rightarrow> (unit, int) ColumnReferenceStorageDirective" where
  "column_enc col ctype =
     \<lparr>column = col, deflt = False,
      encoding = [\<lparr>defname = ''compresstype'', arg = StringNode ctype\<rparr>]\<rparr>"

definition default_enc :: "string \<Rightarrow> (unit, int) ColumnReferenceStorageDirective" where
  "default_enc ctype =
     \<lparr>column = [], deflt = True,
      encoding = [\<lparr>defname = ''compresstype'', arg = StringNode ctype\<rparr>]\<rparr>"

subsection \<open>The catalog and the executor\<close>

text \<open>
  What this file calls and does not define, as a record of functions. \<open>'p\<close> is the
  type of a transformed expression tree.
  \<^item> \<open>transformPartitionBoundValue\<close> gives the \<^verbatim>\<open>Const\<close> for a bound expression
    (\<^verbatim>\<open>constvalue\<close>, \<^verbatim>\<open>constisnull\<close>), or raises.
  \<^item> \<open>make_op_plus\<close> is \<^verbatim>\<open>make_op\<close> for \<^verbatim>\<open>pg_catalog.+\<close> on the parameter of the
    column's type and the transformed interval expression.
  \<^item> \<open>collate_expr_collation p\<close> is \<^verbatim>\<open>exprCollation(p)\<close> when \<open>p\<close> is a
    \<^verbatim>\<open>CollateExpr\<close>, else \<open>None\<close>.
  \<^item> \<open>coerce_to_target_type\<close> is \<open>None\<close> where the C function returns NULL.
  \<^item> \<open>exec_eval p v\<close> is \<^verbatim>\<open>ExecEvalExprSwitchContext\<close> on the state that
    \<^verbatim>\<open>ExecInitExprWithParams\<close> builds for \<open>p\<close>, with the parameter bound to \<open>v\<close>:
    an error, NULL (\<open>None\<close>) or a value.
  \<^item> \<open>transformPartitionBound\<close> transforms the bound of a LIST partition.
  \<^item> \<open>makeObjectName\<close> and \<open>ChooseRelationName\<close> build a relation name from the
    parent's name, the level and the partition label.
  \<^item> \<open>NAMEDATALEN\<close> is the size of a name buffer, \<open>datum_zero\<close> is \<^verbatim>\<open>(Datum) 0\<close>
    and \<open>list_qsort\<close> the sort.
\<close>

record ('x, 'p, 'a) catalog =
  transformPartitionBoundValue :: "('x, 'a) Node \<Rightarrow> error + ('a \<times> bool)"
  make_op_plus :: "('x, 'a) Node \<Rightarrow> error + 'p"
  collate_expr_collation :: "'p \<Rightarrow> nat option"
  coerce_to_target_type :: "'p \<Rightarrow> 'p option"
  exec_eval :: "'p \<Rightarrow> 'a \<Rightarrow> error + 'a option"
  transformPartitionBound ::
    "('x, 'a) PartitionBoundSpec \<Rightarrow> error + ('x, 'a) PartitionBoundSpec"
  makeObjectName :: "string \<Rightarrow> string \<Rightarrow> string \<Rightarrow> string"
  ChooseRelationName :: "string \<Rightarrow> string \<Rightarrow> string \<Rightarrow> string"
  NAMEDATALEN :: nat
  datum_zero :: 'a
  list_qsort ::
    "(('x, 'a) CreateStmt \<Rightarrow> ('x, 'a) CreateStmt \<Rightarrow> int option) \<Rightarrow>
     ('x, 'a) CreateStmt list \<Rightarrow> ('x, 'a) CreateStmt list option"

definition InvalidOid :: nat where
  "InvalidOid = 0"

definition DEFAULT_COLLATION_OID :: nat where
  "DEFAULT_COLLATION_OID = 100"

subsection \<open>initPlusExprState and canonicalizeRangeEnd\<close>

text \<open>
  The expression state is modelled by what evaluating it gives for each value of its
  one parameter.
\<close>

definition initPlusExprState ::
  "('x, 'p, 'a) catalog \<Rightarrow> nat \<Rightarrow> ('x, 'a) Node \<Rightarrow> error + ('a \<Rightarrow> error + 'a option)"
where
  "initPlusExprState cat part_col_collation interval =
     (case make_op_plus cat interval of
        Inl e \<Rightarrow> Inl e
      | Inr plusexpr \<Rightarrow>
          if (case collate_expr_collation cat plusexpr of
                None \<Rightarrow> False
              | Some exprCollOid \<Rightarrow>
                  exprCollOid \<noteq> InvalidOid \<and> exprCollOid \<noteq> DEFAULT_COLLATION_OID \<and>
                  exprCollOid \<noteq> part_col_collation)
          then Inl CollationMismatch
          else (case coerce_to_target_type cat plusexpr of
                  None \<Rightarrow> Inl CannotCast
                | Some plusexpr' \<Rightarrow> Inr (exec_eval cat plusexpr')))"

text \<open>
  \<^verbatim>\<open>canonicalizeRangeEnd\<close> overwrites \<^verbatim>\<open>endConst->constvalue\<close>; here it returns the
  value that the field holds afterwards.
\<close>

definition canonicalizeRangeEnd ::
  "('x, 'p, 'a) catalog \<Rightarrow> 'a \<Rightarrow> bool \<Rightarrow> nat \<Rightarrow> error + 'a"
where
  "canonicalizeRangeEnd cat endConst_value endIncl part_col_collation =
     (if \<not> endIncl then Inr endConst_value
      else
        (case initPlusExprState cat part_col_collation (A_Const_Integer 1) of
           Inl e \<Rightarrow> Inl e
         | Inr plusexprstate \<Rightarrow>
             (case plusexprstate endConst_value of
                Inl e \<Rightarrow> Inl e
              | Inr None \<Rightarrow> Inl PlusOperatorReturnedNull
              | Inr (Some endplusone) \<Rightarrow> Inr endplusone)))"

subsection \<open>The START/END/EVERY iterator\<close>

record 'a PartEveryIterator =
  partkey :: "'a PartitionKey"
  endVal :: 'a
  plusexprstate :: "('a \<Rightarrow> error + 'a option) option"
  currStart :: 'a
  currEnd :: 'a
  called :: bool
  endReached :: bool

text \<open>
  \<open>transform_bound\<close> is the block that \<^verbatim>\<open>initPartEveryIterator\<close> runs for START and
  for END: transform the expression and refuse NULL.
\<close>

definition transform_bound ::
  "('x, 'p, 'a) catalog \<Rightarrow> ('x, 'a) Node \<Rightarrow> error + 'a"
where
  "transform_bound cat n =
     (case transformPartitionBoundValue cat n of
        Inl e \<Rightarrow> Inl e
      | Inr (constvalue, constisnull) \<Rightarrow>
          if constisnull then Inl NullBoundaryValue else Inr constvalue)"

definition initPartEveryIterator ::
  "('x, 'p, 'a) catalog \<Rightarrow> 'a PartitionKey \<Rightarrow> ('x, 'a) Node option \<Rightarrow>
   ('x, 'a) Node option \<Rightarrow> bool \<Rightarrow> ('x, 'a) Node option \<Rightarrow> error + 'a PartEveryIterator"
where
  "initPartEveryIterator cat partkey' start end' endIncl every =
     (case (case start of
              None \<Rightarrow> Inr (datum_zero cat)
            | Some s \<Rightarrow> transform_bound cat s) of
        Inl e \<Rightarrow> Inl e
      | Inr startVal \<Rightarrow>
          (case (case end' of
                   None \<Rightarrow> Inr (datum_zero cat)
                 | Some en \<Rightarrow>
                     (case transform_bound cat en of
                        Inl e \<Rightarrow> Inl e
                      | Inr v \<Rightarrow> canonicalizeRangeEnd cat v endIncl (partcollation partkey' 0))) of
             Inl e \<Rightarrow> Inl e
           | Inr endVal' \<Rightarrow>
               (case (case every of
                        None \<Rightarrow> Inr None
                      | Some ev \<Rightarrow>
                          if start = None \<or> end' = None then Inl EveryRequiresStartEnd
                          else (case initPlusExprState cat (partcollation partkey' 0) ev of
                                  Inl e \<Rightarrow> Inl e
                                | Inr st \<Rightarrow> Inr (Some st))) of
                  Inl e \<Rightarrow> Inl e
                | Inr plusexprstate' \<Rightarrow>
                    Inr \<lparr>partkey = partkey', endVal = endVal',
                         plusexprstate = plusexprstate',
                         currStart = datum_zero cat, currEnd = startVal,
                         called = False, endReached = False\<rparr>)))"

text \<open>
  \<^verbatim>\<open>nextPartBound\<close> returns whether there is a next bound and updates the iterator;
  here it returns both, or the error it raises.
\<close>

definition nextPartBound :: "'a PartEveryIterator \<Rightarrow> error + (bool \<times> 'a PartEveryIterator)" where
  "nextPartBound iter0 =
     (let firstcall = \<not> called iter0;
          iter = iter0\<lparr>called := True\<rparr>
      in case plusexprstate iter of
           Some plusfn \<Rightarrow>
             if endReached iter then Inr (False, iter)
             else
               (case plusfn (currEnd iter) of
                  Inl e \<Rightarrow> Inl e
                | Inr None \<Rightarrow> Inl PlusOperatorReturnedNull
                | Inr (Some next) \<Rightarrow>
                    (let iter1 = iter\<lparr>currStart := currEnd iter\<rparr>
                     in if partsupfunc (partkey iter1) 0 next (endVal iter1) \<ge> 0
                        then Inr (True, iter1\<lparr>endReached := True, currEnd := endVal iter1\<rparr>)
                        else if partsupfunc (partkey iter1) 0 (currEnd iter1) next \<ge> 0
                        then (if firstcall then Inl NonMonotonicStep else Inl RangeOverflow)
                        else Inr (True, iter1\<lparr>currEnd := next\<rparr>)))
         | None \<Rightarrow>
             if \<not> firstcall then Inr (False, iter)
             else Inr (True, iter\<lparr>called := True, currStart := currEnd iter,
                                   currEnd := endVal iter\<rparr>))"

subsection \<open>Partition elements\<close>

datatype PartEdgeBounding = PART_EDGE_UNSPECIFIED | PART_EDGE_INCLUSIVE | PART_EDGE_EXCLUSIVE

record ('x, 'a) GpPartitionRangeItem =
  val :: "('x, 'a) Node list"
  edge :: PartEdgeBounding

text \<open>
  The boundary specification of an element: a \<^verbatim>\<open>GpPartitionRangeSpec\<close> with
  \<^verbatim>\<open>partStart\<close>, \<^verbatim>\<open>partEnd\<close> and \<^verbatim>\<open>partEvery\<close> (an empty list when there is no EVERY),
  or a \<^verbatim>\<open>GpPartitionListSpec\<close> with \<^verbatim>\<open>partValues\<close>.
\<close>

datatype ('x, 'a) BoundSpec =
    GpPartitionRangeSpec
      "('x, 'a) GpPartitionRangeItem option"
      "('x, 'a) GpPartitionRangeItem option"
      "('x, 'a) Node list"
  | GpPartitionListSpec "('x, 'a) Node list list"

record ('x, 'a) GpPartDefElem =
  partName :: "string option"
  boundSpec :: "('x, 'a) BoundSpec option"
  subSpec :: "'x GpPartitionDefinition option"
  isDefault :: bool
  options :: "('x, 'a) DefElem list"
  accessMethod :: "string option"
  tablespacename :: "string option"
  colencs :: "('x, 'a) ColumnReferenceStorageDirective list"

text \<open>
  The parent relation as this file reads it: its name, the name of its namespace, its
  persistence and owner, its partition key and its partition ancestors.
\<close>

record 'a Relation =
  rd_relname :: string
  rd_namespace_name :: string
  rd_relpersistence :: char
  rd_relowner :: nat
  rd_partkey :: "'a PartitionKey"
  rd_ancestors :: "nat list"

record partname_comp =
  tablename :: "string option"
  level :: nat
  partnum :: nat

subsection \<open>Partition names\<close>

text \<open>\<^verbatim>\<open>%d\<close> of a number that is not negative.\<close>

fun string_of_nat :: "nat \<Rightarrow> string" where
  "string_of_nat n =
     (if n < 10 then [''0123456789'' ! n]
      else string_of_nat (n div 10) @ [''0123456789'' ! (n mod 10)])"

declare string_of_nat.simps [simp del]

text \<open>
  \<^verbatim>\<open>snprintf(buf, NAMEDATALEN, ...)\<close> keeps at most \<^verbatim>\<open>NAMEDATALEN - 1\<close> characters.
\<close>

definition snprintf_name :: "('x, 'p, 'a) catalog \<Rightarrow> string \<Rightarrow> string" where
  "snprintf_name cat s = take (NAMEDATALEN cat - 1) s"

definition ChoosePartitionName ::
  "('x, 'p, 'a) catalog \<Rightarrow> 'a Relation \<Rightarrow> string \<Rightarrow> string option \<Rightarrow> nat \<Rightarrow> string"
where
  "ChoosePartitionName cat parentrel levelstr partname partnum' =
     (case partname of
        Some pn \<Rightarrow>
          makeObjectName cat (rd_relname parentrel) levelstr (snprintf_name cat (''prt_'' @ pn))
      | None \<Rightarrow>
          ChooseRelationName cat (rd_relname parentrel) levelstr
            (snprintf_name cat (''prt_'' @ string_of_nat partnum')))"

text \<open>
  \<^verbatim>\<open>makePartitionCreateStmt\<close> increments \<^verbatim>\<open>partnamecomp->partnum\<close> when it chooses a
  name; the updated \<open>partname_comp\<close> is returned with the statement.
\<close>

definition makePartitionCreateStmt ::
  "('x, 'p, 'a) catalog \<Rightarrow> 'a Relation \<Rightarrow> string option \<Rightarrow> ('x, 'a) PartitionBoundSpec \<Rightarrow>
   'x PartitionSpec option \<Rightarrow> ('x, 'a) GpPartDefElem \<Rightarrow> partname_comp \<Rightarrow>
   ('x, 'a) CreateStmt \<times> partname_comp"
where
  "makePartitionCreateStmt cat parentrel partname boundspec subPart elem partnamecomp =
     (let levelStr = snprintf_name cat (string_of_nat (level partnamecomp));
          partnamecomp' =
            (case tablename partnamecomp of
               Some t \<Rightarrow> partnamecomp
             | None \<Rightarrow> partnamecomp\<lparr>partnum := partnum partnamecomp + 1\<rparr>);
          final_part_name =
            (case tablename partnamecomp of
               Some t \<Rightarrow> t
             | None \<Rightarrow>
                 ChoosePartitionName cat parentrel levelStr partname (partnum partnamecomp'));
          parentrv = \<lparr>schemaname = rd_namespace_name parentrel, relname = rd_relname parentrel,
                      relpersistence = rd_relpersistence parentrel\<rparr>;
          childrv = \<lparr>schemaname = rd_namespace_name parentrel, relname = final_part_name,
                     relpersistence = rd_relpersistence parentrel\<rparr>
      in (\<lparr>relation = childrv,
           inhRelations = [parentrv],
           partbound = boundspec,
           partspec = subPart,
           stmt_options = options elem,
           stmt_tablespacename = tablespacename elem,
           stmt_accessMethod = accessMethod elem,
           ownerid = rd_relowner parentrel,
           attr_encodings = colencs elem\<rparr>,
          partnamecomp'))"

subsection \<open>generateRangePartitions\<close>

text \<open>
  The body of the \<^verbatim>\<open>while (nextPartBound(boundIter))\<close> loop: the bound
  specification from the iterator's current pair, the partition's label, the
  statement. It gives the statement, the counter \<open>i\<close> and the \<open>partname_comp\<close>
  after the round.
\<close>

definition range_partition_round ::
  "('x, 'p, 'a) catalog \<Rightarrow> 'a Relation \<Rightarrow> ('x, 'a) GpPartDefElem \<Rightarrow> 'x PartitionSpec option \<Rightarrow>
   ('x, 'a) Node option \<Rightarrow> ('x, 'a) Node option \<Rightarrow> ('x, 'a) Node option \<Rightarrow>
   'a PartEveryIterator \<Rightarrow> nat \<Rightarrow> partname_comp \<Rightarrow>
   ('x, 'a) CreateStmt \<times> nat \<times> partname_comp"
where
  "range_partition_round cat parentrel elem subPart start end' every boundIter i partnamecomp =
     (let boundspec =
            \<lparr>strategy = Some PARTITION_STRATEGY_RANGE,
             is_default = False,
             listdatums = [],
             lowerdatums = (if start \<noteq> None then [Const (currStart boundIter) False] else []),
             upperdatums = (if end' \<noteq> None then [Const (currEnd boundIter) False] else [])\<rparr>;
          i' = (if every \<noteq> None \<and> partName elem \<noteq> None then i + 1 else i);
          partname =
            (case partName elem of
               Some pn \<Rightarrow>
                 if every \<noteq> None then Some (snprintf_name cat (pn @ ''_'' @ string_of_nat i'))
                 else Some pn
             | None \<Rightarrow> None);
          made = makePartitionCreateStmt cat parentrel partname boundspec subPart elem partnamecomp
      in (fst made, i', snd made))"

text \<open>
  The loop itself. Nothing in its text bounds the number of rounds, so it is a partial
  function: \<open>None\<close> is a loop that does not end.
\<close>

partial_function (option) range_partition_loop ::
  "('x, 'p, 'a) catalog \<Rightarrow> 'a Relation \<Rightarrow> ('x, 'a) GpPartDefElem \<Rightarrow> 'x PartitionSpec option \<Rightarrow>
   ('x, 'a) Node option \<Rightarrow> ('x, 'a) Node option \<Rightarrow> ('x, 'a) Node option \<Rightarrow>
   'a PartEveryIterator \<Rightarrow> nat \<Rightarrow> partname_comp \<Rightarrow> ('x, 'a) CreateStmt list \<Rightarrow>
   (error + (('x, 'a) CreateStmt list \<times> partname_comp)) option"
where
  "range_partition_loop cat parentrel elem subPart start end' every boundIter i partnamecomp result =
     (case nextPartBound boundIter of
        Inl e \<Rightarrow> Some (Inl e)
      | Inr r \<Rightarrow>
          if \<not> fst r then Some (Inr (result, partnamecomp))
          else
            (case range_partition_round cat parentrel elem subPart start end' every (snd r) i
                    partnamecomp of
               (childstmt, i', partnamecomp') \<Rightarrow>
                 range_partition_loop cat parentrel elem subPart start end' every (snd r) i'
                   partnamecomp' (result @ [childstmt])))"

definition generateRangePartitions ::
  "('x, 'p, 'a) catalog \<Rightarrow> 'a Relation \<Rightarrow> ('x, 'a) GpPartDefElem \<Rightarrow> 'x PartitionSpec option \<Rightarrow>
   partname_comp \<Rightarrow> (error + (('x, 'a) CreateStmt list \<times> partname_comp)) option"
where
  "generateRangePartitions cat parentrel elem subPart partnamecomp =
     (case boundSpec elem of
        None \<Rightarrow> Some (Inl MissingBoundarySpecification)
      | Some (GpPartitionListSpec vs) \<Rightarrow> Some (Inl InvalidBoundarySpecification)
      | Some (GpPartitionRangeSpec partStart partEnd partEvery) \<Rightarrow>
          (let partkey' = rd_partkey parentrel
           in if partnatts partkey' \<noteq> 1 then Some (Inl MultiColumnRangeUnsupported)
              else if (case partStart of None \<Rightarrow> False
                       | Some it \<Rightarrow> length (val it) \<noteq> partnatts partkey')
              then Some (Inl InvalidNumberOfStartValues)
              else if (case partEnd of None \<Rightarrow> False
                       | Some it \<Rightarrow> length (val it) \<noteq> partnatts partkey')
              then Some (Inl InvalidNumberOfEndValues)
              else if tablename partnamecomp = None \<and> partEvery \<noteq> [] \<and>
                      length partEvery \<noteq> partnatts partkey'
              then Some (Inl InvalidNumberOfEveryValues)
              else
                (let start = map_option (\<lambda>it. hd (val it)) partStart;
                     end' = map_option (\<lambda>it. hd (val it)) partEnd;
                     endIncl = (case partEnd of None \<Rightarrow> False
                                | Some it \<Rightarrow> edge it = PART_EDGE_INCLUSIVE);
                     every = (if tablename partnamecomp = None \<and> partEvery \<noteq> []
                              then Some (hd partEvery) else None)
                 in case initPartEveryIterator cat partkey' start end' endIncl every of
                      Inl e \<Rightarrow> Some (Inl e)
                    | Inr boundIter \<Rightarrow>
                        range_partition_loop cat parentrel elem subPart start end' every
                          boundIter 0 partnamecomp [])))"

subsection \<open>generateListPartition and generateDefaultPartition\<close>

text \<open>
  The loop over \<^verbatim>\<open>partValues\<close>: every value tuple has one column, whose expression
  is appended to \<open>listdatums\<close>.
\<close>

fun list_partition_datums ::
  "('x, 'a) Node list list \<Rightarrow> ('x, 'a) Node list \<Rightarrow> error + ('x, 'a) Node list"
where
  "list_partition_datums [] listdatums' = Inr listdatums'"
| "list_partition_datums (thisvalue # partValues) listdatums' =
     (if length thisvalue \<noteq> 1 then Inl InvalidBoundaryArity
      else list_partition_datums partValues (listdatums' @ [hd thisvalue]))"

definition generateListPartition ::
  "('x, 'p, 'a) catalog \<Rightarrow> 'a Relation \<Rightarrow> ('x, 'a) GpPartDefElem \<Rightarrow> 'x PartitionSpec option \<Rightarrow>
   partname_comp \<Rightarrow> error + (('x, 'a) CreateStmt list \<times> partname_comp)"
where
  "generateListPartition cat parentrel elem subPart partnamecomp =
     (case boundSpec elem of
        None \<Rightarrow> Inl MissingBoundarySpecification
      | Some (GpPartitionRangeSpec s e ev) \<Rightarrow> Inl InvalidBoundarySpecification
      | Some (GpPartitionListSpec partValues) \<Rightarrow>
          (case list_partition_datums partValues [] of
             Inl e \<Rightarrow> Inl e
           | Inr listdatums' \<Rightarrow>
               (case transformPartitionBound cat
                       \<lparr>strategy = Some PARTITION_STRATEGY_LIST, is_default = False,
                        listdatums = listdatums', lowerdatums = [], upperdatums = []\<rparr> of
                  Inl e \<Rightarrow> Inl e
                | Inr boundspec \<Rightarrow>
                    (let made = makePartitionCreateStmt cat parentrel (partName elem) boundspec
                                  subPart elem partnamecomp
                     in Inr ([fst made], snd made)))))"

definition generateDefaultPartition ::
  "('x, 'p, 'a) catalog \<Rightarrow> 'a Relation \<Rightarrow> ('x, 'a) GpPartDefElem \<Rightarrow> 'x PartitionSpec option \<Rightarrow>
   partname_comp \<Rightarrow> ('x, 'a) CreateStmt list \<times> partname_comp"
where
  "generateDefaultPartition cat parentrel elem subPart partnamecomp =
     (let boundspec = \<lparr>strategy = None, is_default = True, listdatums = [],
                       lowerdatums = [], upperdatums = []\<rparr>;
          made = makePartitionCreateStmt cat parentrel (partName elem) boundspec subPart elem
                   partnamecomp
      in ([fst made], snd made))"

subsection \<open>generatePartitions\<close>

text \<open>
  \<^verbatim>\<open>extract_tablename_from_options\<close> returns the name and deletes the cell from
  \<^verbatim>\<open>*options\<close>; here it returns the name and the list that is left.
\<close>

fun extract_tablename_from_options ::
  "('x, 'a) DefElem list \<Rightarrow> error + (string option \<times> ('x, 'a) DefElem list)"
where
  "extract_tablename_from_options [] = Inr (None, [])"
| "extract_tablename_from_options (pDef # rest) =
     (if defname pDef = ''tablename'' then
        (case arg pDef of
           StringNode relname_str \<Rightarrow> Inr (Some relname_str, rest)
         | _ \<Rightarrow> Inl InvalidTablenameSpecification)
      else
        (case extract_tablename_from_options rest of
           Inl e \<Rightarrow> Inl e
         | Inr (t, rest') \<Rightarrow> Inr (t, pDef # rest')))"

text \<open>
  The members of \<^verbatim>\<open>gpPartSpec->partDefElems\<close> and of \<^verbatim>\<open>parentattenc\<close>: partition
  elements, column encoding directives, and nodes of any other type.
\<close>

datatype ('x, 'a) DefNode =
    ElemNode "('x, 'a) GpPartDefElem"
  | EncodingNode "('x, 'a) ColumnReferenceStorageDirective"
  | OtherNode 'x

fun encoding_nodes ::
  "('x, 'a) DefNode list \<Rightarrow> ('x, 'a) ColumnReferenceStorageDirective list"
where
  "encoding_nodes [] = []"
| "encoding_nodes (EncodingNode c # ns) = c # encoding_nodes ns"
| "encoding_nodes (n # ns) = encoding_nodes ns"

text \<open>
  The loop that moves the DEFAULT partition to the front: \<^verbatim>\<open>lcons\<close> for the DEFAULT
  element, \<^verbatim>\<open>lappend\<close> for every other. The second argument is \<open>partDefElems\<close> so
  far, the third whether \<open>defaultPartDefElem\<close> is set.
\<close>

fun default_first ::
  "('x, 'a) DefNode list \<Rightarrow> ('x, 'a) GpPartDefElem list \<Rightarrow> bool \<Rightarrow>
   error + ('x, 'a) GpPartDefElem list"
where
  "default_first [] partDefElems seen_default = Inr partDefElems"
| "default_first (ElemNode elem # ns) partDefElems seen_default =
     (if isDefault elem then
        (if seen_default then Inl MultipleDefaultPartitions
         else default_first ns (elem # partDefElems) True)
      else default_first ns (partDefElems @ [elem]) seen_default)"
| "default_first (n # ns) partDefElems seen_default =
     default_first ns partDefElems seen_default"

text \<open>
  The body of the main loop for one element: the sub-partition specification, the
  \<^verbatim>\<open>tablename\<close> option, the inherited options and access method, the encoding merge
  for \<^verbatim>\<open>aoco\<close>, and the generator for the element's kind.
\<close>

definition generate_for_elem ::
  "('x, 'p, 'a) catalog \<Rightarrow> 'a Relation \<Rightarrow> 'x PartitionSpec option \<Rightarrow> bool \<Rightarrow>
   ('x, 'a) DefElem list \<Rightarrow> string option \<Rightarrow>
   ('x, 'a) ColumnReferenceStorageDirective list \<Rightarrow>
   ('x, 'a) GpPartDefElem \<Rightarrow> partname_comp \<Rightarrow>
   (error + (('x, 'a) CreateStmt list \<times> partname_comp)) option"
where
  "generate_for_elem cat parentrel subPartSpec isSubTemplate parentoptions parentaccessmethod
     penc_cls elem partcomp =
     (case (case subPartSpec of
              None \<Rightarrow> Inr None
            | Some sp \<Rightarrow>
                (let tmp = (if \<not> isSubTemplate then sp\<lparr>gpPartDef := subSpec elem\<rparr> else sp)
                 in if gpPartDef tmp = None then Inl (NoPartitionsAtDepth (level partcomp + 1))
                    else Inr (Some tmp))) of
        Inl e \<Rightarrow> Some (Inl e)
      | Inr tmpSubPartSpec \<Rightarrow>
          (case extract_tablename_from_options (options elem) of
             Inl e \<Rightarrow> Some (Inl e)
           | Inr (t, opts) \<Rightarrow>
               (let partcomp1 = partcomp\<lparr>tablename := t\<rparr>;
                    elem1 = elem\<lparr>options := (if opts = [] then parentoptions else opts)\<rparr>;
                    elem2 = (if accessMethod elem1 = None
                             then elem1\<lparr>accessMethod := parentaccessmethod\<rparr> else elem1)
                in case (if accessMethod elem2 = Some ''aoco''
                         then (case merge_partition_encoding (colencs elem2) penc_cls of
                                 Inl e \<Rightarrow> Inl e
                               | Inr encs \<Rightarrow> Inr (elem2\<lparr>colencs := encs\<rparr>))
                         else Inr elem2) of
                     Inl e \<Rightarrow> Some (Inl e)
                   | Inr elem3 \<Rightarrow>
                       if isDefault elem3 then
                         Some (Inr (generateDefaultPartition cat parentrel elem3 tmpSubPartSpec
                                      partcomp1))
                       else
                         (case key_strategy (rd_partkey parentrel) of
                            PARTITION_STRATEGY_RANGE \<Rightarrow>
                              generateRangePartitions cat parentrel elem3 tmpSubPartSpec partcomp1
                          | PARTITION_STRATEGY_LIST \<Rightarrow>
                              Some (generateListPartition cat parentrel elem3 tmpSubPartSpec
                                      partcomp1)
                          | PARTITION_STRATEGY_HASH \<Rightarrow> Some (Inl UnsupportedStrategy)))))"

text \<open>The main loop: \<^verbatim>\<open>result = list_concat(result, new_parts)\<close> for each element.\<close>

fun generate_for_elems ::
  "('x, 'p, 'a) catalog \<Rightarrow> 'a Relation \<Rightarrow> 'x PartitionSpec option \<Rightarrow> bool \<Rightarrow>
   ('x, 'a) DefElem list \<Rightarrow> string option \<Rightarrow>
   ('x, 'a) ColumnReferenceStorageDirective list \<Rightarrow>
   ('x, 'a) GpPartDefElem list \<Rightarrow> partname_comp \<Rightarrow> ('x, 'a) CreateStmt list \<Rightarrow>
   (error + ('x, 'a) CreateStmt list) option"
where
  "generate_for_elems cat parentrel subPartSpec isSubTemplate parentoptions parentaccessmethod
     penc_cls [] partcomp result = Some (Inr result)"
| "generate_for_elems cat parentrel subPartSpec isSubTemplate parentoptions parentaccessmethod
     penc_cls (elem # elems) partcomp result =
     (case generate_for_elem cat parentrel subPartSpec isSubTemplate parentoptions
             parentaccessmethod penc_cls elem partcomp of
        None \<Rightarrow> None
      | Some (Inl e) \<Rightarrow> Some (Inl e)
      | Some (Inr (new_parts, partcomp')) \<Rightarrow>
          generate_for_elems cat parentrel subPartSpec isSubTemplate parentoptions
            parentaccessmethod penc_cls elems partcomp' (result @ new_parts))"

text \<open>
  \<^verbatim>\<open>generatePartitions\<close>. The parent relation is given opened; \<open>partDefElems'\<close> is
  \<^verbatim>\<open>gpPartSpec->partDefElems\<close>.
\<close>

definition generatePartitions ::
  "('x, 'p, 'a) catalog \<Rightarrow> 'a Relation \<Rightarrow> ('x, 'a) DefNode list \<Rightarrow> 'x PartitionSpec option \<Rightarrow>
   ('x, 'a) DefElem list \<Rightarrow> string option \<Rightarrow> ('x, 'a) DefNode list \<Rightarrow>
   (error + ('x, 'a) CreateStmt list) option"
where
  "generatePartitions cat parentrel partDefElems' subPartSpec parentoptions parentaccessmethod
     parentattenc =
     (let partcomp = \<lparr>tablename = None, level = length (rd_ancestors parentrel) + 1, partnum = 0\<rparr>
      in case extract_tablename_from_options parentoptions of
           Inl e \<Rightarrow> Some (Inl e)
         | Inr (t, parentoptions') \<Rightarrow>
             (let isSubTemplate =
                    (case subPartSpec of
                       None \<Rightarrow> False
                     | Some sp \<Rightarrow> (case gpPartDef sp of None \<Rightarrow> False | Some d \<Rightarrow> istemplate d));
                  parent_tblenc = encoding_nodes parentattenc
              in case merge_partition_encoding (encoding_nodes partDefElems') parent_tblenc of
                   Inl e \<Rightarrow> Some (Inl e)
                 | Inr penc_cls \<Rightarrow>
                     (case default_first partDefElems' [] False of
                        Inl e \<Rightarrow> Some (Inl e)
                      | Inr partDefElems \<Rightarrow>
                          (case generate_for_elems cat parentrel subPartSpec isSubTemplate
                                  parentoptions' parentaccessmethod penc_cls partDefElems
                                  partcomp [] of
                             None \<Rightarrow> None
                           | Some (Inl e) \<Rightarrow> Some (Inl e)
                           | Some (Inr result) \<Rightarrow>
                               if key_strategy (rd_partkey parentrel) = PARTITION_STRATEGY_RANGE
                               then map_option Inr
                                      (deduceImplicitRangeBounds (list_qsort cat) result
                                         (rd_partkey parentrel))
                               else Some (Inr result)))))"

subsection \<open>A catalog to run the examples with\<close>

text \<open>
  An \<^verbatim>\<open>int4\<close> key column: bound expressions are integer literals, \<^verbatim>\<open>+\<close> is
  \<^verbatim>\<open>int4pl\<close> (which raises when the sum leaves the 32-bit range), names are joined
  with underscores, and the sort is the insertion sort above.
\<close>

definition int4_catalog :: "(unit, int, int) catalog" where
  "int4_catalog =
     \<lparr>transformPartitionBoundValue =
        (\<lambda>n. case n of
                A_Const_Integer k \<Rightarrow> Inr (k, False)
              | _ \<Rightarrow> Inl (CollaboratorError ''not an integer literal'')),
      make_op_plus =
        (\<lambda>n. case n of
                A_Const_Integer k \<Rightarrow> Inr k
              | _ \<Rightarrow> Inl (CollaboratorError ''operator does not exist'')),
      collate_expr_collation = (\<lambda>p. None),
      coerce_to_target_type = Some,
      exec_eval =
        (\<lambda>p v. if - 2147483648 \<le> v + p \<and> v + p \<le> 2147483647 then Inr (Some (v + p))
                else Inl (CollaboratorError ''integer out of range'')),
      transformPartitionBound = Inr,
      makeObjectName = (\<lambda>name1 name2 label. name1 @ ''_'' @ name2 @ ''_'' @ label),
      ChooseRelationName = (\<lambda>name1 name2 label. name1 @ ''_'' @ name2 @ ''_'' @ label),
      NAMEDATALEN = 64,
      datum_zero = 0,
      list_qsort = insertion_qsort\<rparr>"

text \<open>
  The same catalog for a column whose \<^verbatim>\<open>+\<close> rounds its result the way \<^verbatim>\<open>float8pl\<close>
  does between \<open>2^53\<close> and \<open>2^54\<close>, where only the even integers are values of the
  type and a tie goes to the multiple of 4.
\<close>

definition rounding_catalog :: "(unit, int, int) catalog" where
  "rounding_catalog =
     int4_catalog\<lparr>exec_eval :=
       (\<lambda>p v. let s = v + p
               in if s \<le> 9007199254740992 \<or> even s then Inr (Some s)
                  else Inr (Some (4 * ((s + 2) div 4))))\<rparr>"

definition int_rel :: "strategy \<Rightarrow> int Relation" where
  "int_rel s =
     \<lparr>rd_relname = ''t'', rd_namespace_name = ''public'', rd_relpersistence = CHR ''p'',
      rd_relowner = 10, rd_partkey = int_key s, rd_ancestors = []\<rparr>"

text \<open>
  \<open>range_elem name start end incl every opts\<close>: the element
  \<^verbatim>\<open>PARTITION name START (start) END (end) [INCLUSIVE] EVERY (every) WITH (opts)\<close>, each
  clause present when its list is not empty.
\<close>

definition range_elem ::
  "string option \<Rightarrow> int list \<Rightarrow> int list \<Rightarrow> bool \<Rightarrow> int list \<Rightarrow> (unit, int) DefElem list \<Rightarrow>
   (unit, int) GpPartDefElem"
where
  "range_elem name start end' incl every opts =
     \<lparr>partName = name,
      boundSpec = Some (GpPartitionRangeSpec
        (if start = [] then None
         else Some \<lparr>val = map A_Const_Integer start, edge = PART_EDGE_UNSPECIFIED\<rparr>)
        (if end' = [] then None
         else Some \<lparr>val = map A_Const_Integer end',
                    edge = (if incl then PART_EDGE_INCLUSIVE else PART_EDGE_EXCLUSIVE)\<rparr>)
        (map A_Const_Integer every)),
      subSpec = None, isDefault = False, options = opts, accessMethod = None,
      tablespacename = None, colencs = []\<rparr>"

definition first_partcomp :: partname_comp where
  "first_partcomp = \<lparr>tablename = None, level = 1, partnum = 0\<rparr>"

text \<open>The bounds of the statements of a result, for reading an example.\<close>

definition bounds_of ::
  "('x, 'a) CreateStmt list \<Rightarrow> (string \<times> ('x, 'a) Node list \<times> ('x, 'a) Node list) list"
where
  "bounds_of stmts =
     map (\<lambda>s. (relname (relation s), lowerdatums (partbound s), upperdatums (partbound s))) stmts"

declare range_partition_loop.simps [code]

text \<open>
  The partition elements among the nodes of \<^verbatim>\<open>partDefElems\<close>, in the order in which
  they are declared; the properties of \<open>default_first\<close> are stated with it.
\<close>

fun elem_nodes :: "('x, 'a) DefNode list \<Rightarrow> ('x, 'a) GpPartDefElem list" where
  "elem_nodes [] = []"
| "elem_nodes (ElemNode elem # ns) = elem # elem_nodes ns"
| "elem_nodes (n # ns) = elem_nodes ns"

text \<open>A LIST key and a LIST element for the closed examples.\<close>

definition list_elem ::
  "string \<Rightarrow> int list \<Rightarrow> string option \<Rightarrow> string option \<Rightarrow>
   (unit, int) ColumnReferenceStorageDirective list \<Rightarrow> (unit, int) GpPartDefElem"
where
  "list_elem name vals am ts encs =
     \<lparr>partName = Some name,
      boundSpec = Some (GpPartitionListSpec (map (\<lambda>v. [A_Const_Integer v]) vals)),
      subSpec = None, isDefault = False, options = [], accessMethod = am,
      tablespacename = ts, colencs = encs\<rparr>"

definition default_elem :: "string \<Rightarrow> (unit, int) GpPartDefElem" where
  "default_elem name =
     \<lparr>partName = Some name, boundSpec = None, subSpec = None, isDefault = True,
      options = [], accessMethod = None, tablespacename = None, colencs = []\<rparr>"


section \<open>Properties\<close>

subsection \<open>The comparator\<close>

text \<open>
  C2. The claim: of two statements of which exactly one is a DEFAULT partition, the
  comparator orders the DEFAULT one after the other, so that it comes last in the
  sorted list. The source's comment says the same (\<^verbatim>\<open>Sort DEFAULT partitions last\<close>),
  but the branch returns 1 when the second statement is the DEFAULT one: the other
  statement compares greater, and the DEFAULT statement sorts first. Evaluated on a
  range partition \<^verbatim>\<open>START (1) END (10)\<close> and a DEFAULT partition: the comparator gives
  1 and -1, the list with the DEFAULT partition last is not in comparator order, and
  the insertion sort moves the DEFAULT partition to the front.
\<close>

theorem qsort_stmt_cmp_default_first:
  "qsort_stmt_cmp (int_key PARTITION_STRATEGY_RANGE)
     (bound_stmt ''p1'' False [1] [10]) (bound_stmt ''other'' True [] []) = Some 1
   \<and> qsort_stmt_cmp (int_key PARTITION_STRATEGY_RANGE)
     (bound_stmt ''other'' True [] []) (bound_stmt ''p1'' False [1] [10]) = Some (- 1)
   \<and> \<not> in_cmp_order (qsort_stmt_cmp (int_key PARTITION_STRATEGY_RANGE))
         [bound_stmt ''p1'' False [1] [10], bound_stmt ''other'' True [] []]
   \<and> insertion_qsort (qsort_stmt_cmp (int_key PARTITION_STRATEGY_RANGE))
         [bound_stmt ''p1'' False [1] [10], bound_stmt ''other'' True [] []]
       = Some [bound_stmt ''other'' True [] [], bound_stmt ''p1'' False [1] [10]]"
  by (simp add: insertion_qsort_def qsort_stmt_cmp_def int_key_def bound_stmt_def)

text \<open>
  C5. For a statement \<open>s1\<close> with only a lower bound and a statement \<open>s2\<close> with only
  an upper bound (both DEFAULT or both not): comparing \<open>s1\<close> with \<open>s2\<close> is the column
  loop on lower against upper, with the result 0 replaced by 1; comparing \<open>s2\<close> with
  \<open>s1\<close> is the column loop on upper against lower, as it is. So when the values compare
  equal in both directions, \<open>s1\<close> against \<open>s2\<close> is 1 and \<open>s2\<close> against \<open>s1\<close> is 0: the
  list with the END-only statement first is in comparator order, the other is not.
\<close>

theorem qsort_stmt_cmp_start_vs_end:
  assumes "is_default (partbound s1) = is_default (partbound s2)"
    and "lowerdatums (partbound s1) \<noteq> []" and "upperdatums (partbound s1) = []"
    and "lowerdatums (partbound s2) = []" and "upperdatums (partbound s2) \<noteq> []"
  shows "qsort_stmt_cmp key s1 s2 =
           (case cmp_datums (partsupfunc key) (lowerdatums (partbound s1))
                   (upperdatums (partbound s2)) 0 (partnatts key) of
              None \<Rightarrow> None
            | Some c \<Rightarrow> Some (if c = 0 then 1 else c))
         \<and> qsort_stmt_cmp key s2 s1 =
             cmp_datums (partsupfunc key) (upperdatums (partbound s2))
               (lowerdatums (partbound s1)) 0 (partnatts key)
         \<and> (cmp_datums (partsupfunc key) (lowerdatums (partbound s1))
               (upperdatums (partbound s2)) 0 (partnatts key) = Some 0 \<longrightarrow>
             cmp_datums (partsupfunc key) (upperdatums (partbound s2))
               (lowerdatums (partbound s1)) 0 (partnatts key) = Some 0 \<longrightarrow>
               qsort_stmt_cmp key s1 s2 = Some 1 \<and> qsort_stmt_cmp key s2 s1 = Some 0 \<and>
               in_cmp_order (qsort_stmt_cmp key) [s2, s1] \<and>
               \<not> in_cmp_order (qsort_stmt_cmp key) [s1, s2])"
proof -
  have fwd: "qsort_stmt_cmp key s1 s2 =
           (case cmp_datums (partsupfunc key) (lowerdatums (partbound s1))
                   (upperdatums (partbound s2)) 0 (partnatts key) of
              None \<Rightarrow> None
            | Some c \<Rightarrow> Some (if c = 0 then 1 else c))"
    using assms by (simp add: qsort_stmt_cmp_def split: option.splits)
  have bwd: "qsort_stmt_cmp key s2 s1 =
             cmp_datums (partsupfunc key) (upperdatums (partbound s2))
               (lowerdatums (partbound s1)) 0 (partnatts key)"
    using assms by (simp add: qsort_stmt_cmp_def)
  show ?thesis
    by (simp add: fwd bwd)
qed

theorem qsort_stmt_cmp_start_vs_end_witness:
  "qsort_stmt_cmp (int_key PARTITION_STRATEGY_RANGE)
     (bound_stmt ''p2'' False [10] []) (bound_stmt ''p1'' False [] [10]) = Some 1
   \<and> qsort_stmt_cmp (int_key PARTITION_STRATEGY_RANGE)
     (bound_stmt ''p1'' False [] [10]) (bound_stmt ''p2'' False [10] []) = Some 0
   \<and> in_cmp_order (qsort_stmt_cmp (int_key PARTITION_STRATEGY_RANGE))
        [bound_stmt ''p1'' False [] [10], bound_stmt ''p2'' False [10] []]
   \<and> \<not> in_cmp_order (qsort_stmt_cmp (int_key PARTITION_STRATEGY_RANGE))
        [bound_stmt ''p2'' False [10] [], bound_stmt ''p1'' False [] [10]]
   \<and> insertion_qsort (qsort_stmt_cmp (int_key PARTITION_STRATEGY_RANGE))
        [bound_stmt ''p2'' False [10] [], bound_stmt ''p1'' False [] [10]]
       = Some [bound_stmt ''p1'' False [] [10], bound_stmt ''p2'' False [10] []]
   \<and> insertion_qsort (qsort_stmt_cmp (int_key PARTITION_STRATEGY_RANGE))
        [bound_stmt ''p1'' False [] [10], bound_stmt ''p2'' False [10] []]
       = Some [bound_stmt ''p1'' False [] [10], bound_stmt ''p2'' False [10] []]"
proof -
  let ?k = "int_key PARTITION_STRATEGY_RANGE"
  let ?s = "bound_stmt ''p2'' False [10] []"
  let ?e = "bound_stmt ''p1'' False [] [10]"
  have d: "is_default (partbound ?s) = is_default (partbound ?e)"
    by (simp add: bound_stmt_def)
  have l1: "lowerdatums (partbound ?s) \<noteq> []" and u1: "upperdatums (partbound ?s) = []"
    and l2: "lowerdatums (partbound ?e) = []" and u2: "upperdatums (partbound ?e) \<noteq> []"
    by (simp_all add: bound_stmt_def)
  have c1: "cmp_datums (partsupfunc ?k) (lowerdatums (partbound ?s))
              (upperdatums (partbound ?e)) 0 (partnatts ?k) = Some 0"
    by (simp add: bound_stmt_def int_key_def nth_constvalue_def)
  have c2: "cmp_datums (partsupfunc ?k) (upperdatums (partbound ?e))
              (lowerdatums (partbound ?s)) 0 (partnatts ?k) = Some 0"
    by (simp add: bound_stmt_def int_key_def nth_constvalue_def)
  from qsort_stmt_cmp_start_vs_end [OF d l1 u1 l2 u2, of ?k] c1 c2
  have cmp: "qsort_stmt_cmp ?k ?s ?e = Some 1" "qsort_stmt_cmp ?k ?e ?s = Some 0"
    and ord: "in_cmp_order (qsort_stmt_cmp ?k) [?e, ?s]"
      "\<not> in_cmp_order (qsort_stmt_cmp ?k) [?s, ?e]"
    by blast+
  have "insertion_qsort (qsort_stmt_cmp ?k) [?s, ?e] = Some [?e, ?s]"
    and "insertion_qsort (qsort_stmt_cmp ?k) [?e, ?s] = Some [?e, ?s]"
    by (simp_all add: insertion_qsort_def cmp)
  with cmp ord show ?thesis by simp
qed

subsection \<open>Implicit bounds\<close>







subsection \<open>Column encodings\<close>

lemma split_encoding_clauses_eq:
  "split_encoding_clauses encs non_def def =
     (if (if def = None then 0 else 1) + length (filter deflt encs) > Suc 0
      then Inl MultipleDefaultEncodings
      else Inr (non_def @ filter (\<lambda>c. \<not> deflt c) encs,
                (case filter deflt encs of [] \<Rightarrow> def | d # _ \<Rightarrow> Some d)))"
  by (induction encs arbitrary: non_def def) (auto split: list.splits)

lemma column_found_iff:
  "column_found pd eds \<longleftrightarrow> column pd \<in> column ` set eds"
  by (induction eds) auto

lemma add_part_nondefs_eq:
  "add_part_nondefs pds eds ecs = ecs @ filter (\<lambda>pd. column pd \<notin> column ` set eds) pds"
  by (induction pds arbitrary: ecs) (simp_all add: column_found_iff)

text \<open>
  C7, as amended. \<^verbatim>\<open>merge_partition_encoding\<close> returns the element's list when the
  configuration has no directive, and the configuration's list, as it is, when the
  element has none. When both have directives and neither has more than one default
  directive, the result is the element's list, then the configuration's
  column-specific directives whose column no column-specific directive of the element
  mentions, in their order, then the configuration's default directive if there is one
  and the element has no default directive of its own. More than one default directive
  on either side is an error there.
\<close>

theorem merge_partition_encoding_result:
  "merge_partition_encoding elem_colencs penc =
     (if penc = [] then Inr elem_colencs
      else if elem_colencs = [] then Inr penc
      else if length (filter deflt elem_colencs) > 1 \<or> length (filter deflt penc) > 1
        then Inl MultipleDefaultEncodings
      else Inr (elem_colencs
                @ filter (\<lambda>pd. \<not> deflt pd \<and>
                    column pd \<notin> set (map column (filter (\<lambda>ed. \<not> deflt ed) elem_colencs)))
                    penc
                @ (if filter deflt elem_colencs \<noteq> [] then [] else filter deflt penc)))"
proof -
  have one: "filter deflt xs = [d] " if "filter deflt xs = d # ds" "\<not> Suc 0 < length (filter deflt xs)"
    for xs :: "('x, 'a) ColumnReferenceStorageDirective list" and d ds
    using that by (cases ds) simp_all
  show ?thesis
    by (auto simp: merge_partition_encoding_def split_encoding_clauses_eq add_part_nondefs_eq
        Let_def filter_filter conj_commute one split: list.splits)
qed

theorem merge_partition_encoding_result_witness:
  "merge_partition_encoding
     [column_enc ''j'' ''none'', column_enc ''k'' ''none'']
     [default_enc ''zlib'', column_enc ''j'' ''rle_type'', column_enc ''i'' ''zstd'']
   = Inr [column_enc ''j'' ''none'', column_enc ''k'' ''none'', column_enc ''i'' ''zstd'',
          default_enc ''zlib'']"
  by (simp add: merge_partition_encoding_result column_enc_def default_enc_def)

text \<open>
  C7 as stated fails for an element without directives: the configuration's list
  \<^verbatim>\<open>DEFAULT COLUMN ENCODING (zlib), COLUMN j ENCODING (rle_type)\<close> is returned as it is,
  and its default directive is first, not last.
\<close>

theorem merge_partition_encoding_default_not_last:
  "merge_partition_encoding [] [default_enc ''zlib'', column_enc ''j'' ''rle_type'']
     = Inr [default_enc ''zlib'', column_enc ''j'' ''rle_type'']
   \<and> last [default_enc ''zlib'', column_enc ''j'' ''rle_type''] \<noteq> default_enc ''zlib''
   \<and> deflt (default_enc ''zlib'')"
  by (simp add: merge_partition_encoding_def default_enc_def column_enc_def)

subsection \<open>The iterator\<close>

lemma initPartEveryIterator_fresh:
  assumes "initPartEveryIterator cat key start end' endIncl every = Inr it0"
  shows "\<not> called it0 \<and> \<not> endReached it0 \<and> partkey it0 = key"
  using assms
  by (auto simp: initPartEveryIterator_def split: sum.splits option.splits if_splits)

lemma nextPartBound_called:
  assumes "nextPartBound iter = Inr (again, iter')"
  shows "called iter'"
  using assms
  by (auto simp: nextPartBound_def Let_def split: sum.splits option.splits if_splits)

text \<open>
  C3, as amended. A call of \<^verbatim>\<open>nextPartBound\<close> on an iterator with an EVERY expression
  that has not reached END, whose next bound compares below END and does not compare
  above the previous upper bound, fails: with \<^verbatim>\<open>EVERY parameter too small\<close> when the
  iterator has not been called before, and with
  \<^verbatim>\<open>END parameter not reached before type overflows\<close> when it has. A new iterator has
  not been called, and every iterator that a call returns has been. So the first call
  fails with the first error and every later call with the second; and when adding the
  step gives the start value back (\<^verbatim>\<open>EVERY (0)\<close>) and START compares below END, the first
  call fails with the first error.
\<close>

theorem nextPartBound_no_advance:
  "(plusexprstate iter = Some plusfn \<longrightarrow> \<not> endReached iter \<longrightarrow>
    plusfn (currEnd iter) = Inr (Some next) \<longrightarrow>
    partsupfunc (partkey iter) 0 next (endVal iter) < 0 \<longrightarrow>
    partsupfunc (partkey iter) 0 (currEnd iter) next \<ge> 0 \<longrightarrow>
      nextPartBound iter = Inl (if called iter then RangeOverflow else NonMonotonicStep))
   \<and> (initPartEveryIterator cat key start end' endIncl every = Inr iter \<longrightarrow> \<not> called iter)
   \<and> (nextPartBound iter0 = Inr (again, iter) \<longrightarrow> called iter)
   \<and> (initPartEveryIterator cat key start end' endIncl every = Inr iter \<longrightarrow>
       plusexprstate iter = Some plusfn \<longrightarrow>
       plusfn (currEnd iter) = Inr (Some (currEnd iter)) \<longrightarrow>
       partsupfunc key 0 (currEnd iter) (endVal iter) < 0 \<longrightarrow>
       partsupfunc key 0 (currEnd iter) (currEnd iter) \<ge> 0 \<longrightarrow>
         nextPartBound iter = Inl NonMonotonicStep)"
proof -
  have stall: "nextPartBound it = Inl (if called it then RangeOverflow else NonMonotonicStep)"
    if "plusexprstate it = Some f" "\<not> endReached it" "f (currEnd it) = Inr (Some n)"
      "partsupfunc (partkey it) 0 n (endVal it) < 0"
      "partsupfunc (partkey it) 0 (currEnd it) n \<ge> 0"
    for it :: "'a PartEveryIterator" and f n
    using that by (simp add: nextPartBound_def Let_def)
  have zero: "nextPartBound iter = Inl NonMonotonicStep"
    if init: "initPartEveryIterator cat key start end' endIncl every = Inr iter"
      and "plusexprstate iter = Some plusfn"
      and "plusfn (currEnd iter) = Inr (Some (currEnd iter))"
      and "partsupfunc key 0 (currEnd iter) (endVal iter) < 0"
      and "partsupfunc key 0 (currEnd iter) (currEnd iter) \<ge> 0"
  proof -
    from initPartEveryIterator_fresh [OF init]
    have "\<not> called iter" "\<not> endReached iter" "partkey iter = key" by simp_all
    with that stall [of iter plusfn "currEnd iter"] show ?thesis by simp
  qed
  from stall [of iter plusfn "next"] zero initPartEveryIterator_fresh [of cat key start end' endIncl every iter]
    nextPartBound_called [of iter0 again iter]
  show ?thesis by blast
qed

lemma initPartEveryIterator_every:
  assumes "transform_bound cat s = Inr a" and "transform_bound cat e = Inr v"
    and "canonicalizeRangeEnd cat v endIncl (partcollation key 0) = Inr b"
    and "initPlusExprState cat (partcollation key 0) ev = Inr plusfn"
  shows "initPartEveryIterator cat key (Some s) (Some e) endIncl (Some ev) =
           Inr \<lparr>partkey = key, endVal = b, plusexprstate = Some plusfn,
                currStart = datum_zero cat, currEnd = a, called = False, endReached = False\<rparr>"
  using assms by (simp add: initPartEveryIterator_def)

lemma int4_transform_bound [simp]:
  "transform_bound int4_catalog (A_Const_Integer k) = Inr k"
  "transform_bound rounding_catalog (A_Const_Integer k) = Inr k"
  by (simp_all add: transform_bound_def int4_catalog_def rounding_catalog_def)

lemma int4_initPlusExprState [simp]:
  "initPlusExprState int4_catalog c (A_Const_Integer k) = Inr (exec_eval int4_catalog k)"
  "initPlusExprState rounding_catalog c (A_Const_Integer k) = Inr (exec_eval rounding_catalog k)"
  by (simp_all add: initPlusExprState_def int4_catalog_def rounding_catalog_def)

lemma int4_exec_eval:
  "exec_eval int4_catalog p v =
     (if - 2147483648 \<le> v + p \<and> v + p \<le> 2147483647 then Inr (Some (v + p))
      else Inl (CollaboratorError ''integer out of range''))"
  "exec_eval rounding_catalog p v =
     (let s = v + p
      in if s \<le> 9007199254740992 \<or> even s then Inr (Some s)
         else Inr (Some (4 * ((s + 2) div 4))))"
  by (simp_all add: int4_catalog_def rounding_catalog_def)

lemma int4_datum_zero [simp]:
  "datum_zero int4_catalog = 0" "datum_zero rounding_catalog = 0"
  by (simp_all add: int4_catalog_def rounding_catalog_def)

lemma int_key_sel [simp]:
  "partsupfunc (int_key s) i x y = (if x < y then - 1 else if x = y then 0 else 1)"
  "partnatts (int_key s) = 1" "partcollation (int_key s) i = 0" "key_strategy (int_key s) = s"
  by (simp_all add: int_key_def)

theorem nextPartBound_no_advance_witness:
  "(case initPartEveryIterator int4_catalog (int_key PARTITION_STRATEGY_RANGE)
           (Some (A_Const_Integer 1)) (Some (A_Const_Integer 10)) False
           (Some (A_Const_Integer 0)) of
      Inl e \<Rightarrow> False
    | Inr it0 \<Rightarrow> \<not> called it0 \<and> nextPartBound it0 = Inl NonMonotonicStep)
   \<and> (case initPartEveryIterator rounding_catalog (int_key PARTITION_STRATEGY_RANGE)
           (Some (A_Const_Integer 9007199254740991)) (Some (A_Const_Integer 9007199254740996))
           False (Some (A_Const_Integer 1)) of
      Inl e \<Rightarrow> False
    | Inr it0 \<Rightarrow>
        (case nextPartBound it0 of
           Inl e \<Rightarrow> False
         | Inr r \<Rightarrow> fst r \<and> called (snd r) \<and> nextPartBound (snd r) = Inl RangeOverflow))"
proof -
  let ?k = "int_key PARTITION_STRATEGY_RANGE"
  let ?a = "\<lparr>partkey = ?k, endVal = 10, plusexprstate = Some (exec_eval int4_catalog 0),
             currStart = 0, currEnd = 1, called = False, endReached = False\<rparr>"
  have ia: "initPartEveryIterator int4_catalog ?k (Some (A_Const_Integer 1))
              (Some (A_Const_Integer 10)) False (Some (A_Const_Integer 0)) = Inr ?a"
    by (simp add: initPartEveryIterator_every canonicalizeRangeEnd_def)
  have a: "nextPartBound ?a = Inl NonMonotonicStep"
  proof -
    have "plusexprstate ?a = Some (exec_eval int4_catalog 0)" by simp
    moreover have "exec_eval int4_catalog 0 (currEnd ?a) = Inr (Some (currEnd ?a))"
      by (simp add: int4_exec_eval)
    moreover have "partsupfunc ?k 0 (currEnd ?a) (endVal ?a) < 0" by simp
    moreover have "partsupfunc ?k 0 (currEnd ?a) (currEnd ?a) \<ge> 0" by simp
    ultimately show ?thesis
      using ia nextPartBound_no_advance
        [THEN conjunct2, THEN conjunct2, THEN conjunct2, rule_format,
          of int4_catalog ?k "Some (A_Const_Integer 1)" "Some (A_Const_Integer 10)" False
            "Some (A_Const_Integer 0)" ?a "exec_eval int4_catalog 0"]
      by simp
  qed
  let ?b = "\<lparr>partkey = ?k, endVal = 9007199254740996,
             plusexprstate = Some (exec_eval rounding_catalog 1),
             currStart = 0, currEnd = 9007199254740991, called = False, endReached = False\<rparr>"
  let ?b1 = "?b\<lparr>called := True, currStart := 9007199254740991, currEnd := 9007199254740992\<rparr>"
  have ib: "initPartEveryIterator rounding_catalog ?k (Some (A_Const_Integer 9007199254740991))
              (Some (A_Const_Integer 9007199254740996)) False (Some (A_Const_Integer 1)) = Inr ?b"
    by (simp add: initPartEveryIterator_every canonicalizeRangeEnd_def)
  have b0: "nextPartBound ?b = Inr (True, ?b1)"
    by (simp add: nextPartBound_def int4_exec_eval Let_def)
  have b1: "nextPartBound ?b1 = Inl RangeOverflow"
  proof -
    have "plusexprstate ?b1 = Some (exec_eval rounding_catalog 1)" by simp
    moreover have "\<not> endReached ?b1" by simp
    moreover have "exec_eval rounding_catalog 1 (currEnd ?b1) = Inr (Some 9007199254740992)"
      by (simp add: int4_exec_eval Let_def)
    moreover have "partsupfunc (partkey ?b1) 0 9007199254740992 (endVal ?b1) < 0" by simp
    moreover have "partsupfunc (partkey ?b1) 0 (currEnd ?b1) 9007199254740992 \<ge> 0" by simp
    moreover have "called ?b1" by simp
    ultimately show ?thesis
      using nextPartBound_no_advance
        [THEN conjunct1, rule_format, of ?b1 "exec_eval rounding_catalog 1" 9007199254740992]
      by simp
  qed
  show ?thesis
    by (simp only: ia ib a b0 b1 sum.case fst_conv snd_conv) simp
qed

text \<open>
  C3 as stated fails on the second call: with a \<^verbatim>\<open>+\<close> that rounds,
  \<^verbatim>\<open>START (9007199254740991) END (9007199254740996) EVERY (1)\<close> advances on the first
  call and stalls on the second, which fails with the overflow error and not with
  \<^verbatim>\<open>EVERY parameter too small\<close>. \<^verbatim>\<open>EVERY (0)\<close> on \<^verbatim>\<open>START (1) END (10)\<close> fails on the
  first call, before any partition is generated, and \<^verbatim>\<open>EVERY (0)\<close> on
  \<^verbatim>\<open>START (10) END (5)\<close> does not fail: the first sum already compares at or above END.
\<close>

theorem nextPartBound_second_call_counterexample:
  "(case initPartEveryIterator rounding_catalog (int_key PARTITION_STRATEGY_RANGE)
           (Some (A_Const_Integer 9007199254740991)) (Some (A_Const_Integer 9007199254740996))
           False (Some (A_Const_Integer 1)) of
      Inl e \<Rightarrow> False
    | Inr it0 \<Rightarrow>
        (case nextPartBound it0 of
           Inl e \<Rightarrow> False
         | Inr r \<Rightarrow> fst r \<and> currStart (snd r) = 9007199254740991
                    \<and> currEnd (snd r) = 9007199254740992
                    \<and> nextPartBound (snd r) = Inl RangeOverflow
                    \<and> nextPartBound (snd r) \<noteq> Inl NonMonotonicStep))
   \<and> (case initPartEveryIterator int4_catalog (int_key PARTITION_STRATEGY_RANGE)
           (Some (A_Const_Integer 1)) (Some (A_Const_Integer 10)) False
           (Some (A_Const_Integer 0)) of
      Inl e \<Rightarrow> False
    | Inr it0 \<Rightarrow> nextPartBound it0 = Inl NonMonotonicStep)
   \<and> generateRangePartitions int4_catalog (int_rel PARTITION_STRATEGY_RANGE)
        (range_elem None [1] [10] False [0] []) None first_partcomp = Some (Inl NonMonotonicStep)
   \<and> map_option (map_sum id (\<lambda>r. bounds_of (fst r)))
        (generateRangePartitions int4_catalog (int_rel PARTITION_STRATEGY_RANGE)
           (range_elem None [10] [5] False [0] []) None first_partcomp)
      = Some (Inr [(''t_1_prt_1'', [Const 10 False], [Const 5 False])])"
proof -
  let ?k = "int_key PARTITION_STRATEGY_RANGE"
  let ?a = "\<lparr>partkey = ?k, endVal = 10, plusexprstate = Some (exec_eval int4_catalog 0),
             currStart = 0, currEnd = 1, called = False, endReached = False\<rparr>"
  let ?b = "\<lparr>partkey = ?k, endVal = 9007199254740996,
             plusexprstate = Some (exec_eval rounding_catalog 1),
             currStart = 0, currEnd = 9007199254740991, called = False, endReached = False\<rparr>"
  let ?b1 = "?b\<lparr>called := True, currStart := 9007199254740991, currEnd := 9007199254740992\<rparr>"
  have ia: "initPartEveryIterator int4_catalog ?k (Some (A_Const_Integer 1))
              (Some (A_Const_Integer 10)) False (Some (A_Const_Integer 0)) = Inr ?a"
    by (simp add: initPartEveryIterator_every canonicalizeRangeEnd_def)
  have a: "nextPartBound ?a = Inl NonMonotonicStep"
    by (simp add: nextPartBound_def int4_exec_eval Let_def)
  have ib: "initPartEveryIterator rounding_catalog ?k (Some (A_Const_Integer 9007199254740991))
              (Some (A_Const_Integer 9007199254740996)) False (Some (A_Const_Integer 1)) = Inr ?b"
    by (simp add: initPartEveryIterator_every canonicalizeRangeEnd_def)
  have b0: "nextPartBound ?b = Inr (True, ?b1)"
    by (simp add: nextPartBound_def int4_exec_eval Let_def)
  have b1: "nextPartBound ?b1 = Inl RangeOverflow"
    by (simp add: nextPartBound_def int4_exec_eval Let_def)
  have g0: "generateRangePartitions int4_catalog (int_rel PARTITION_STRATEGY_RANGE)
        (range_elem None [1] [10] False [0] []) None first_partcomp = Some (Inl NonMonotonicStep)"
    by code_simp
  have g1: "map_option (map_sum id (\<lambda>r. bounds_of (fst r)))
        (generateRangePartitions int4_catalog (int_rel PARTITION_STRATEGY_RANGE)
           (range_elem None [10] [5] False [0] []) None first_partcomp)
      = Some (Inr [(''t_1_prt_1'', [Const 10 False], [Const 5 False])])"
    by code_simp
  show ?thesis
    by (simp only: ia ib a b0 b1 g0 g1 sum.case fst_conv snd_conv) simp
qed



subsection \<open>Range partitions\<close>

lemma range_partition_round_bounds:
  assumes "start \<noteq> None" and "end' \<noteq> None"
  shows "lowerdatums (partbound (fst (range_partition_round cat parentrel elem subPart start end'
            every it i pc))) = [Const (currStart it) False]"
    and "upperdatums (partbound (fst (range_partition_round cat parentrel elem subPart start end'
            every it i pc))) = [Const (currEnd it) False]"
  using assms
  by (simp_all add: range_partition_round_def makePartitionCreateStmt_def Let_def)

lemma nextPartBound_advance:
  assumes "plusexprstate it = Some plusfn" and "\<not> endReached it"
    and "plusfn (currEnd it) = Inr (Some nxt)"
    and "partsupfunc (partkey it) 0 nxt (endVal it) < 0"
    and "partsupfunc (partkey it) 0 (currEnd it) nxt < 0"
  shows "nextPartBound it = Inr (True, it\<lparr>called := True, currStart := currEnd it, currEnd := nxt\<rparr>)"
  using assms by (simp add: nextPartBound_def Let_def)

lemma nextPartBound_reach:
  assumes "plusexprstate it = Some plusfn" and "\<not> endReached it"
    and "plusfn (currEnd it) = Inr (Some nxt)"
    and "partsupfunc (partkey it) 0 nxt (endVal it) \<ge> 0"
  shows "nextPartBound it =
           Inr (True, it\<lparr>called := True, currStart := currEnd it, endReached := True,
                          currEnd := endVal it\<rparr>)"
  using assms by (simp add: nextPartBound_def Let_def)

lemma nextPartBound_finished:
  assumes "plusexprstate it = Some plusfn" and "endReached it"
  shows "nextPartBound it = Inr (False, it\<lparr>called := True\<rparr>)"
  using assms by (simp add: nextPartBound_def Let_def)

lemma range_partition_loop_pairs:
  fixes s :: "nat \<Rightarrow> 'a"
  assumes plus: "\<And>k. k < n \<Longrightarrow> plusfn (s k) = Inr (Some (s (Suc k)))"
    and below: "\<And>k. Suc k < n \<Longrightarrow> partsupfunc key 0 (s (Suc k)) b < 0"
    and adv: "\<And>k. Suc k < n \<Longrightarrow> partsupfunc key 0 (s k) (s (Suc k)) < 0"
    and reach: "partsupfunc key 0 (s n) b \<ge> 0"
    and se: "start \<noteq> None" "end' \<noteq> None"
  shows "d = n - j \<Longrightarrow> j < n \<Longrightarrow> plusexprstate it = Some plusfn \<Longrightarrow> \<not> endReached it \<Longrightarrow>
     currEnd it = s j \<Longrightarrow> endVal it = b \<Longrightarrow> partkey it = key \<Longrightarrow>
     \<exists>stmts pc'.
        range_partition_loop cat parentrel elem subPart start end' every it i pc acc
          = Some (Inr (acc @ stmts, pc'))
        \<and> length stmts = n - j
        \<and> (\<forall>k < n - j.
              lowerdatums (partbound (stmts ! k)) = [Const (s (j + k)) False] \<and>
              upperdatums (partbound (stmts ! k)) =
                [Const (if Suc (j + k) = n then b else s (Suc (j + k))) False])"
proof (induction d arbitrary: j it i pc acc)
  case 0
  then show ?case by simp
next
  case (Suc d)
  let ?round = "\<lambda>it1. range_partition_round cat parentrel elem subPart start end' every it1 i pc"
  from Suc.prems have pj: "plusfn (currEnd it) = Inr (Some (s (Suc j)))"
    using plus [of j] by simp
  show ?case
  proof (cases "Suc j = n")
    case True
    let ?it1 = "it\<lparr>called := True, currStart := currEnd it, endReached := True,
                   currEnd := endVal it\<rparr>"
    from True reach Suc.prems have "partsupfunc (partkey it) 0 (s (Suc j)) (endVal it) \<ge> 0"
      by simp
    with Suc.prems pj have step: "nextPartBound it = Inr (True, ?it1)"
      using nextPartBound_reach [of it plusfn "s (Suc j)"] by simp
    from Suc.prems have fin: "nextPartBound ?it1 = Inr (False, ?it1\<lparr>called := True\<rparr>)"
      using nextPartBound_finished [of ?it1 plusfn] by simp
    obtain stmt i' pc' where r: "?round ?it1 = (stmt, i', pc')"
      by (cases "?round ?it1") auto
    have run: "range_partition_loop cat parentrel elem subPart start end' every it i pc acc
                 = Some (Inr (acc @ [stmt], pc'))"
      by (subst range_partition_loop.simps, simp add: step r,
          subst range_partition_loop.simps, simp add: fin)
    from r have "stmt = fst (?round ?it1)" by simp
    with range_partition_round_bounds [OF se, of cat parentrel elem subPart every ?it1 i pc]
    have "lowerdatums (partbound stmt) = [Const (currEnd it) False]"
      and "upperdatums (partbound stmt) = [Const (endVal it) False]" by simp_all
    with Suc.prems True run show ?thesis by auto
  next
    case False
    with Suc.prems have lt: "Suc j < n" by simp
    let ?it1 = "it\<lparr>called := True, currStart := currEnd it, currEnd := s (Suc j)\<rparr>"
    from lt below [of j] adv [of j] Suc.prems
    have "partsupfunc (partkey it) 0 (s (Suc j)) (endVal it) < 0"
      and "partsupfunc (partkey it) 0 (currEnd it) (s (Suc j)) < 0" by simp_all
    with Suc.prems pj have step: "nextPartBound it = Inr (True, ?it1)"
      using nextPartBound_advance [of it plusfn "s (Suc j)"] by simp
    obtain stmt i' pc' where r: "?round ?it1 = (stmt, i', pc')"
      by (cases "?round ?it1") auto
    have unfold: "range_partition_loop cat parentrel elem subPart start end' every it i pc acc
        = range_partition_loop cat parentrel elem subPart start end' every ?it1 i' pc' (acc @ [stmt])"
      by (subst range_partition_loop.simps) (simp add: step r)
    from Suc.prems lt have d: "d = n - Suc j" by simp
    from Suc.IH [OF d lt, of ?it1 i' pc' "acc @ [stmt]"] Suc.prems
    obtain stmts pc'' where
      run: "range_partition_loop cat parentrel elem subPart start end' every ?it1 i' pc'
              (acc @ [stmt]) = Some (Inr ((acc @ [stmt]) @ stmts, pc''))"
      and len: "length stmts = n - Suc j"
      and bnds: "\<And>k. k < n - Suc j \<Longrightarrow>
              lowerdatums (partbound (stmts ! k)) = [Const (s (Suc j + k)) False] \<and>
              upperdatums (partbound (stmts ! k)) =
                [Const (if Suc (Suc j + k) = n then b else s (Suc (Suc j + k))) False]"
      by auto
    from r have "stmt = fst (?round ?it1)" by simp
    with range_partition_round_bounds [OF se, of cat parentrel elem subPart every ?it1 i pc]
      Suc.prems
    have b0: "lowerdatums (partbound stmt) = [Const (s j) False]"
      "upperdatums (partbound stmt) = [Const (s (Suc j)) False]" by simp_all
    have all: "lowerdatums (partbound ((stmt # stmts) ! k)) = [Const (s (j + k)) False] \<and>
               upperdatums (partbound ((stmt # stmts) ! k)) =
                 [Const (if Suc (j + k) = n then b else s (Suc (j + k))) False]"
      if "k < n - j" for k
    proof (cases k)
      case 0
      with b0 lt show ?thesis by simp
    next
      case (Suc k')
      with that have "k' < n - Suc j" by simp
      from bnds [OF this] Suc show ?thesis by simp
    qed
    from unfold run have "range_partition_loop cat parentrel elem subPart start end' every it i pc acc
        = Some (Inr (acc @ (stmt # stmts), pc''))" by simp
    moreover from len lt have "length (stmt # stmts) = n - j" by simp
    ultimately show ?thesis using all by blast
  qed
qed

text \<open>
  C1. An element \<^verbatim>\<open>START (a) END (b) EVERY (e)\<close> on a key of one column, without a
  \<^verbatim>\<open>tablename\<close> option. Let \<open>s 0 = a\<close> and let \<open>s (k + 1)\<close> be the value of the plus
  expression at \<open>s k\<close>. If \<open>s 1\<close>, ..., \<open>s (n - 1)\<close> compare below \<open>b\<close>, each above the
  one before, and \<open>s n\<close> compares at or above \<open>b\<close>, then the loop ends, and
  \<^verbatim>\<open>generateRangePartitions\<close> returns \<open>n\<close> statements: statement \<open>k\<close> has the lower
  bound \<open>s k\<close> and the upper bound \<open>s (k + 1)\<close>, the last one the upper bound \<open>b\<close>. The
  first lower bound is \<open>a\<close>, and every upper bound is the lower bound of the next
  statement.
\<close>

theorem generateRangePartitions_every_pairs:
  fixes s :: "nat \<Rightarrow> 'a"
  assumes spec: "boundSpec elem = Some (GpPartitionRangeSpec (Some si) (Some ei) [ev])"
    and vals: "val si = [sN]" "val ei = [eN]"
    and one: "partnatts (rd_partkey parentrel) = 1"
    and notab: "tablename pc = None"
    and st: "transform_bound cat sN = Inr a"
    and en: "transform_bound cat eN = Inr v"
    and canon: "canonicalizeRangeEnd cat v (edge ei = PART_EDGE_INCLUSIVE)
                  (partcollation (rd_partkey parentrel) 0) = Inr b"
    and ev: "initPlusExprState cat (partcollation (rd_partkey parentrel) 0) ev = Inr plusfn"
    and s0: "s 0 = a" and n: "0 < n"
    and plus: "\<forall>k<n. plusfn (s k) = Inr (Some (s (Suc k)))"
    and mono: "\<forall>k. Suc k < n \<longrightarrow>
                 partsupfunc (rd_partkey parentrel) 0 (s (Suc k)) b < 0 \<and>
                 partsupfunc (rd_partkey parentrel) 0 (s k) (s (Suc k)) < 0"
    and reach: "partsupfunc (rd_partkey parentrel) 0 (s n) b \<ge> 0"
  shows "\<exists>stmts pc'.
           generateRangePartitions cat parentrel elem subPart pc = Some (Inr (stmts, pc'))
         \<and> length stmts = n
         \<and> (\<forall>k<n. lowerdatums (partbound (stmts ! k)) = [Const (s k) False] \<and>
                  upperdatums (partbound (stmts ! k)) =
                    [Const (if Suc k = n then b else s (Suc k)) False])
         \<and> lowerdatums (partbound (hd stmts)) = [Const a False]
         \<and> upperdatums (partbound (last stmts)) = [Const b False]
         \<and> (\<forall>k. Suc k < n \<longrightarrow>
               upperdatums (partbound (stmts ! k)) = lowerdatums (partbound (stmts ! Suc k)))"
proof -
  let ?key = "rd_partkey parentrel"
  let ?it = "\<lparr>partkey = ?key, endVal = b, plusexprstate = Some plusfn,
              currStart = datum_zero cat, currEnd = a, called = False, endReached = False\<rparr>"
  have init: "initPartEveryIterator cat ?key (Some sN) (Some eN) (edge ei = PART_EDGE_INCLUSIVE)
                (Some ev) = Inr ?it"
    using st en canon ev by (rule initPartEveryIterator_every)
  have gen: "generateRangePartitions cat parentrel elem subPart pc =
               range_partition_loop cat parentrel elem subPart (Some sN) (Some eN) (Some ev)
                 ?it 0 pc []"
    by (simp add: generateRangePartitions_def spec vals one notab init Let_def)
  from range_partition_loop_pairs
    [where s = s and n = n and plusfn = plusfn and key = ?key and b = b and j = 0 and it = ?it
      and start = "Some sN" and end' = "Some eN" and d = n and acc = "[]" and cat = cat
      and parentrel = parentrel and elem = elem and subPart = subPart and every = "Some ev"
      and i = 0 and pc = pc]
    plus mono reach n s0
  obtain stmts pc' where
    run: "range_partition_loop cat parentrel elem subPart (Some sN) (Some eN) (Some ev) ?it 0 pc []
            = Some (Inr (stmts, pc'))"
    and len: "length stmts = n"
    and bnds: "\<And>k. k < n \<Longrightarrow>
                 lowerdatums (partbound (stmts ! k)) = [Const (s k) False] \<and>
                 upperdatums (partbound (stmts ! k)) =
                   [Const (if Suc k = n then b else s (Suc k)) False]"
    by auto
  from len n have ne: "stmts \<noteq> []" by auto
  have first: "lowerdatums (partbound (hd stmts)) = [Const a False]"
    using bnds [OF n] ne s0 by (simp add: hd_conv_nth)
  have final: "upperdatums (partbound (last stmts)) = [Const b False]"
    using bnds [of "n - 1"] ne n len by (simp add: last_conv_nth)
  have chain: "upperdatums (partbound (stmts ! k)) = lowerdatums (partbound (stmts ! Suc k))"
    if "Suc k < n" for k
    using bnds [of k] bnds [of "Suc k"] that by simp
  from gen run len bnds first final chain show ?thesis by auto
qed

theorem generateRangePartitions_every_pairs_witness:
  "\<exists>stmts pc'.
      generateRangePartitions int4_catalog (int_rel PARTITION_STRATEGY_RANGE)
        (range_elem None [1] [10] False [4] []) None first_partcomp = Some (Inr (stmts, pc'))
    \<and> length stmts = 3
    \<and> lowerdatums (partbound (stmts ! 0)) = [Const 1 False]
    \<and> upperdatums (partbound (stmts ! 0)) = [Const 5 False]
    \<and> lowerdatums (partbound (stmts ! 1)) = [Const 5 False]
    \<and> upperdatums (partbound (stmts ! 1)) = [Const 9 False]
    \<and> lowerdatums (partbound (stmts ! 2)) = [Const 9 False]
    \<and> upperdatums (partbound (stmts ! 2)) = [Const 10 False]"
proof -
  let ?rel = "int_rel PARTITION_STRATEGY_RANGE"
  let ?elem = "range_elem None [1] [10] False [4] []"
  let ?si = "\<lparr>val = [A_Const_Integer 1], edge = PART_EDGE_UNSPECIFIED\<rparr> :: (unit, int) GpPartitionRangeItem"
  let ?ei = "\<lparr>val = [A_Const_Integer 10], edge = PART_EDGE_EXCLUSIVE\<rparr> :: (unit, int) GpPartitionRangeItem"
  let ?s = "\<lambda>k. 1 + 4 * int k"
  have key: "rd_partkey ?rel = int_key PARTITION_STRATEGY_RANGE" by (simp add: int_rel_def)
  have spec: "boundSpec ?elem = Some (GpPartitionRangeSpec (Some ?si) (Some ?ei) [A_Const_Integer 4])"
    by (simp add: range_elem_def)
  have plus: "\<forall>k<3. exec_eval int4_catalog 4 (?s k) = Inr (Some (?s (Suc k)))"
    by (simp add: int4_exec_eval)
  have mono: "\<forall>k. Suc k < 3 \<longrightarrow>
                 partsupfunc (rd_partkey ?rel) 0 (?s (Suc k)) 10 < 0 \<and>
                 partsupfunc (rd_partkey ?rel) 0 (?s k) (?s (Suc k)) < 0"
    by (simp add: key)
  have reach: "partsupfunc (rd_partkey ?rel) 0 (?s 3) 10 \<ge> 0" by (simp add: key)
  from generateRangePartitions_every_pairs
    [where elem = ?elem and si = ?si and ei = ?ei and ev = "A_Const_Integer 4"
      and sN = "A_Const_Integer 1" and eN = "A_Const_Integer 10" and parentrel = ?rel
      and pc = first_partcomp and cat = int4_catalog and a = 1 and v = 10 and b = 10
      and plusfn = "exec_eval int4_catalog 4" and s = ?s and n = 3 and subPart = None,
      OF spec _ _ _ _ _ _ _ _ _ _ plus mono reach]
  obtain stmts pc' where
    run: "generateRangePartitions int4_catalog ?rel ?elem None first_partcomp = Some (Inr (stmts, pc'))"
    and len: "length stmts = 3"
    and bnds: "\<And>k. k < 3 \<Longrightarrow>
                 lowerdatums (partbound (stmts ! k)) = [Const (?s k) False] \<and>
                 upperdatums (partbound (stmts ! k)) =
                   [Const (if Suc k = 3 then 10 else ?s (Suc k)) False]"
    by (auto simp: key canonicalizeRangeEnd_def first_partcomp_def)
  from bnds [of 0] bnds [of 1] bnds [of 2] run len show ?thesis by simp
qed

lemma nextPartBound_no_every:
  assumes "plusexprstate it = None"
  shows "nextPartBound it =
           (if called it then Inr (False, it\<lparr>called := True\<rparr>)
            else Inr (True, it\<lparr>called := True, currStart := currEnd it, currEnd := endVal it\<rparr>))"
  using assms by (simp add: nextPartBound_def Let_def)

lemma range_partition_loop_no_every:
  assumes "plusexprstate it = None" and "\<not> called it"
  shows "range_partition_loop cat parentrel elem subPart start end' every it i pc acc =
           (let it1 = it\<lparr>called := True, currStart := currEnd it, currEnd := endVal it\<rparr>;
                r = range_partition_round cat parentrel elem subPart start end' every it1 i pc
            in Some (Inr (acc @ [fst r], snd (snd r))))"
  using assms
  by (subst range_partition_loop.simps, simp add: nextPartBound_no_every split: prod.splits,
      subst range_partition_loop.simps, simp add: nextPartBound_no_every)

text \<open>
  The \<^verbatim>\<open>tablename\<close> of the \<open>partname_comp\<close> is the string of the first option named
  \<^verbatim>\<open>tablename\<close>, which is taken out of the options.
\<close>

lemma extract_tablename_from_options_found:
  assumes "defname d = ''tablename''" and "arg d = StringNode t"
    and "list_all (\<lambda>o'. defname o' \<noteq> ''tablename'') before"
  shows "extract_tablename_from_options (before @ d # after) = Inr (Some t, before @ after)"
  using assms by (induction before) simp_all

text \<open>
  C9. With a \<^verbatim>\<open>tablename\<close> in the \<open>partname_comp\<close>, \<^verbatim>\<open>generateRangePartitions\<close> does
  not read \<^verbatim>\<open>partEvery\<close>, whatever it holds: it returns exactly one statement, named
  by the override, whose bounds are the declared START and the (canonical) END, and it
  leaves the partition counter as it was.
\<close>

theorem generateRangePartitions_tablename:
  assumes tab: "tablename pc = Some t"
    and spec: "boundSpec elem = Some (GpPartitionRangeSpec partStart partEnd partEvery)"
    and one: "partnatts (rd_partkey parentrel) = 1"
    and st: "\<forall>si. partStart = Some si \<longrightarrow>
               length (val si) = 1 \<and> transform_bound cat (hd (val si)) = Inr a"
    and en: "\<forall>ei. partEnd = Some ei \<longrightarrow>
               length (val ei) = 1 \<and>
               (\<exists>v. transform_bound cat (hd (val ei)) = Inr v \<and>
                    canonicalizeRangeEnd cat v (edge ei = PART_EDGE_INCLUSIVE)
                      (partcollation (rd_partkey parentrel) 0) = Inr b)"
  shows "\<exists>stmt. generateRangePartitions cat parentrel elem subPart pc = Some (Inr ([stmt], pc))
           \<and> relname (relation stmt) = t
           \<and> lowerdatums (partbound stmt) =
               (case partStart of None \<Rightarrow> [] | Some si \<Rightarrow> [Const a False])
           \<and> upperdatums (partbound stmt) =
               (case partEnd of None \<Rightarrow> [] | Some ei \<Rightarrow> [Const b False])"
proof -
  let ?key = "rd_partkey parentrel"
  let ?start = "map_option (\<lambda>it. hd (val it)) partStart"
  let ?end = "map_option (\<lambda>it. hd (val it)) partEnd"
  let ?incl = "(case partEnd of None \<Rightarrow> False | Some it \<Rightarrow> edge it = PART_EDGE_INCLUSIVE)"
  let ?it = "\<lparr>partkey = ?key,
              endVal = (case partEnd of None \<Rightarrow> datum_zero cat | Some ei \<Rightarrow> b),
              plusexprstate = None, currStart = datum_zero cat,
              currEnd = (case partStart of None \<Rightarrow> datum_zero cat | Some si \<Rightarrow> a),
              called = False, endReached = False\<rparr>"
  have init: "initPartEveryIterator cat ?key ?start ?end ?incl None = Inr ?it"
    using st en by (auto simp: initPartEveryIterator_def split: option.splits)
  have gen: "generateRangePartitions cat parentrel elem subPart pc =
               range_partition_loop cat parentrel elem subPart ?start ?end None ?it 0 pc []"
    using st en by (auto simp: generateRangePartitions_def spec one tab init Let_def
        split: option.splits)
  let ?it1 = "?it\<lparr>called := True, currStart := currEnd ?it, currEnd := endVal ?it\<rparr>"
  let ?r = "range_partition_round cat parentrel elem subPart ?start ?end None ?it1 0 pc"
  have run: "generateRangePartitions cat parentrel elem subPart pc =
               Some (Inr ([fst ?r], snd (snd ?r)))"
    by (simp add: gen range_partition_loop_no_every Let_def)
  have pc: "snd (snd ?r) = pc"
    by (simp add: range_partition_round_def makePartitionCreateStmt_def Let_def tab)
  have name: "relname (relation (fst ?r)) = t"
    by (simp add: range_partition_round_def makePartitionCreateStmt_def Let_def tab)
  have lo: "lowerdatums (partbound (fst ?r)) =
              (case partStart of None \<Rightarrow> [] | Some si \<Rightarrow> [Const a False])"
    by (simp add: range_partition_round_def makePartitionCreateStmt_def Let_def
        split: option.splits)
  have up: "upperdatums (partbound (fst ?r)) =
              (case partEnd of None \<Rightarrow> [] | Some ei \<Rightarrow> [Const b False])"
    by (simp add: range_partition_round_def makePartitionCreateStmt_def Let_def
        split: option.splits)
  from run pc name lo up show ?thesis by simp
qed

theorem generateRangePartitions_tablename_witness:
  "\<exists>stmt. generateRangePartitions int4_catalog (int_rel PARTITION_STRATEGY_RANGE)
             (range_elem (Some ''p'') [1] [10] False [4] []) None
             (first_partcomp\<lparr>tablename := Some ''legacy''\<rparr>)
           = Some (Inr ([stmt], first_partcomp\<lparr>tablename := Some ''legacy''\<rparr>))
         \<and> relname (relation stmt) = ''legacy''
         \<and> lowerdatums (partbound stmt) = [Const 1 False]
         \<and> upperdatums (partbound stmt) = [Const 10 False]
         \<and> map_option (map_sum id bounds_of)
              (generatePartitions int4_catalog (int_rel PARTITION_STRATEGY_RANGE)
                 [ElemNode (range_elem (Some ''p'') [1] [10] False [4]
                    [\<lparr>defname = ''tablename'', arg = StringNode ''legacy''\<rparr>])]
                 None [] None [])
            = Some (Inr [(''legacy'', [Const 1 False], [Const 10 False])])"
proof -
  let ?rel = "int_rel PARTITION_STRATEGY_RANGE"
  let ?elem = "range_elem (Some ''p'') [1] [10] False [4] []"
  let ?si = "\<lparr>val = [A_Const_Integer 1], edge = PART_EDGE_UNSPECIFIED\<rparr> :: (unit, int) GpPartitionRangeItem"
  let ?ei = "\<lparr>val = [A_Const_Integer 10], edge = PART_EDGE_EXCLUSIVE\<rparr> :: (unit, int) GpPartitionRangeItem"
  let ?pc = "first_partcomp\<lparr>tablename := Some ''legacy''\<rparr>"
  have tab: "tablename ?pc = Some ''legacy''" by simp
  have spec: "boundSpec ?elem = Some (GpPartitionRangeSpec (Some ?si) (Some ?ei) [A_Const_Integer 4])"
    by (simp add: range_elem_def)
  have one: "partnatts (rd_partkey ?rel) = 1" by (simp add: int_rel_def)
  have st: "\<forall>si. Some ?si = Some si \<longrightarrow>
               length (val si) = 1 \<and> transform_bound int4_catalog (hd (val si)) = Inr 1"
    by auto
  have en: "\<forall>ei. Some ?ei = Some ei \<longrightarrow>
               length (val ei) = 1 \<and>
               (\<exists>v. transform_bound int4_catalog (hd (val ei)) = Inr v \<and>
                    canonicalizeRangeEnd int4_catalog v (edge ei = PART_EDGE_INCLUSIVE)
                      (partcollation (rd_partkey ?rel) 0) = Inr 10)"
    by (auto simp: canonicalizeRangeEnd_def)
  have whole: "map_option (map_sum id bounds_of)
              (generatePartitions int4_catalog (int_rel PARTITION_STRATEGY_RANGE)
                 [ElemNode (range_elem (Some ''p'') [1] [10] False [4]
                    [\<lparr>defname = ''tablename'', arg = StringNode ''legacy''\<rparr>])]
                 None [] None [])
            = Some (Inr [(''legacy'', [Const 1 False], [Const 10 False])])"
    by code_simp
  from generateRangePartitions_tablename [OF tab spec one st en, of None] whole
  show ?thesis by simp
qed

subsection \<open>The driver\<close>









lemma default_first_eq:
  "default_first ns acc seen =
     (if (if seen then 1 else 0) + length (filter isDefault (elem_nodes ns)) > Suc 0
      then Inl MultipleDefaultPartitions
      else Inr (rev (filter isDefault (elem_nodes ns)) @ acc
                @ filter (\<lambda>e. \<not> isDefault e) (elem_nodes ns)))"
  by (induction ns acc seen rule: default_first.induct) auto

lemma default_first_order:
  assumes "default_first ns [] False = Inr order"
  shows "order = filter isDefault (elem_nodes ns) @ filter (\<lambda>e. \<not> isDefault e) (elem_nodes ns)"
proof -
  from assms have le: "length (filter isDefault (elem_nodes ns)) \<le> Suc 0"
    and eq: "order = rev (filter isDefault (elem_nodes ns))
                       @ filter (\<lambda>e. \<not> isDefault e) (elem_nodes ns)"
    by (auto simp: default_first_eq split: if_splits)
  from le have "rev (filter isDefault (elem_nodes ns)) = filter isDefault (elem_nodes ns)"
    by (cases "filter isDefault (elem_nodes ns)") auto
  with eq show ?thesis by simp
qed

lemma generate_for_elems_parts:
  assumes "generate_for_elems cat parentrel subPartSpec isSubTemplate parentoptions
             parentaccessmethod penc_cls elems partcomp acc = Some (Inr res)"
  shows "\<exists>parts. res = acc @ concat parts \<and>
           list_all2
             (\<lambda>elem part. \<exists>pc pc'.
                 generate_for_elem cat parentrel subPartSpec isSubTemplate parentoptions
                   parentaccessmethod penc_cls elem pc = Some (Inr (part, pc')))
             elems parts"
  using assms
proof (induction elems arbitrary: partcomp acc)
  case Nil
  then show ?case by simp
next
  case (Cons elem elems)
  from Cons.prems obtain new_parts pc1 where
    one: "generate_for_elem cat parentrel subPartSpec isSubTemplate parentoptions
            parentaccessmethod penc_cls elem partcomp = Some (Inr (new_parts, pc1))"
    and rest: "generate_for_elems cat parentrel subPartSpec isSubTemplate parentoptions
                 parentaccessmethod penc_cls elems pc1 (acc @ new_parts) = Some (Inr res)"
    by (auto split: option.splits sum.splits)
  from Cons.IH [OF rest] obtain parts where
    "res = (acc @ new_parts) @ concat parts"
    and "list_all2
           (\<lambda>elem part. \<exists>pc pc'.
               generate_for_elem cat parentrel subPartSpec isSubTemplate parentoptions
                 parentaccessmethod penc_cls elem pc = Some (Inr (part, pc')))
           elems parts"
    by blast
  with one have "res = acc @ concat (new_parts # parts) \<and>
           list_all2
             (\<lambda>elem part. \<exists>pc pc'.
                 generate_for_elem cat parentrel subPartSpec isSubTemplate parentoptions
                   parentaccessmethod penc_cls elem pc = Some (Inr (part, pc')))
             (elem # elems) (new_parts # parts)"
    by auto
  then show ?case by blast
qed

text \<open>
  C6, as amended. The statements are generated element by element, in the order with
  the DEFAULT element first and the others as declared. When the key's strategy is not
  RANGE, \<^verbatim>\<open>generatePartitions\<close> returns them in that order. When it is RANGE, it returns
  the list that \<^verbatim>\<open>deduceImplicitRangeBounds\<close> returns: the list as the sort left it, with
  the implicit bounds filled in.
\<close>

theorem generatePartitions_order:
  fixes cat :: "('x, 'p, 'a) catalog"
  assumes run: "generatePartitions cat parentrel nodes subPartSpec parentoptions
                  parentaccessmethod parentattenc = Some (Inr result)"
  shows "\<exists>parts isSubTemplate parentoptions' penc_cls.
           list_all2
             (\<lambda>elem part. \<exists>pc pc'.
                 generate_for_elem cat parentrel subPartSpec isSubTemplate parentoptions'
                   parentaccessmethod penc_cls elem pc = Some (Inr (part, pc')))
             (filter isDefault (elem_nodes nodes) @ filter (\<lambda>e. \<not> isDefault e) (elem_nodes nodes))
             parts
         \<and> (key_strategy (rd_partkey parentrel) \<noteq> PARTITION_STRATEGY_RANGE \<longrightarrow>
              result = concat parts)
         \<and> (key_strategy (rd_partkey parentrel) = PARTITION_STRATEGY_RANGE \<longrightarrow>
              (\<exists>stmts. list_qsort cat (qsort_stmt_cmp (rd_partkey parentrel)) (concat parts)
                         = Some stmts
                     \<and> result = deduce_loop None stmts))"
proof -
  let ?pc0 = "\<lparr>tablename = None, level = length (rd_ancestors parentrel) + 1, partnum = 0\<rparr>"
  let ?isT = "(case subPartSpec of
                 None \<Rightarrow> False
               | Some sp \<Rightarrow> (case gpPartDef sp of None \<Rightarrow> False | Some d \<Rightarrow> istemplate d))"
  obtain t po where ex: "extract_tablename_from_options parentoptions = Inr (t, po)"
    using run
    by (cases "extract_tablename_from_options parentoptions")
      (auto simp: generatePartitions_def Let_def)
  obtain penc where
    mg: "merge_partition_encoding (encoding_nodes nodes) (encoding_nodes parentattenc) = Inr penc"
    using run ex
    by (cases "merge_partition_encoding (encoding_nodes nodes) (encoding_nodes parentattenc)")
      (auto simp: generatePartitions_def Let_def)
  obtain order where df: "default_first nodes [] False = Inr order"
    using run ex mg
    by (cases "default_first nodes [] False") (auto simp: generatePartitions_def Let_def)
  have unfolded: "generatePartitions cat parentrel nodes subPartSpec parentoptions
                  parentaccessmethod parentattenc =
      (case generate_for_elems cat parentrel subPartSpec ?isT po parentaccessmethod penc
              order ?pc0 [] of
         None \<Rightarrow> None
       | Some (Inl e) \<Rightarrow> Some (Inl e)
       | Some (Inr processed) \<Rightarrow>
           if key_strategy (rd_partkey parentrel) = PARTITION_STRATEGY_RANGE
           then map_option Inr
                  (deduceImplicitRangeBounds (list_qsort cat) processed (rd_partkey parentrel))
           else Some (Inr processed))"
    by (simp add: generatePartitions_def Let_def ex mg df)
  define L where "L = generate_for_elems cat parentrel subPartSpec ?isT po parentaccessmethod
                         penc order ?pc0 []"
  define F where "F = (\<lambda>processed.
      if key_strategy (rd_partkey parentrel) = PARTITION_STRATEGY_RANGE
      then map_option Inr
             (deduceImplicitRangeBounds (list_qsort cat) processed (rd_partkey parentrel))
      else Some (Inr processed :: error + ('x, 'a) CreateStmt list))"
  have "generatePartitions cat parentrel nodes subPartSpec parentoptions
          parentaccessmethod parentattenc =
        (case L of None \<Rightarrow> None | Some (Inl e) \<Rightarrow> Some (Inl e)
         | Some (Inr processed) \<Rightarrow> F processed)"
    unfolding L_def F_def by (rule unfolded)
  with run
  have "(case L of None \<Rightarrow> None | Some (Inl e) \<Rightarrow> Some (Inl e)
         | Some (Inr processed) \<Rightarrow> F processed) = Some (Inr result)"
    by simp
  then obtain processed where lp: "L = Some (Inr processed)"
    and fp: "F processed = Some (Inr result)"
    by (cases L) (auto split: sum.splits)
  note loop = lp [unfolded L_def]
  note fin = fp [unfolded F_def]
  from generate_for_elems_parts [OF loop] obtain parts where
    cc: "processed = concat parts"
    and all: "list_all2
             (\<lambda>elem part. \<exists>pc pc'.
                 generate_for_elem cat parentrel subPartSpec ?isT po
                   parentaccessmethod penc elem pc = Some (Inr (part, pc')))
             order parts"
    by auto
  from default_first_order [OF df]
  have ord: "order = filter isDefault (elem_nodes nodes)
                      @ filter (\<lambda>e. \<not> isDefault e) (elem_nodes nodes)" .
  have nr: "result = concat parts"
    if "key_strategy (rd_partkey parentrel) \<noteq> PARTITION_STRATEGY_RANGE"
    using fin that cc by simp
  have r: "\<exists>stmts. list_qsort cat (qsort_stmt_cmp (rd_partkey parentrel)) (concat parts)
                      = Some stmts \<and> result = deduce_loop None stmts"
    if "key_strategy (rd_partkey parentrel) = PARTITION_STRATEGY_RANGE"
    using fin that cc
    by (auto simp: deduceImplicitRangeBounds_def split: option.splits)
  from all ord nr r show ?thesis by blast
qed

theorem generatePartitions_order_witness:
  "\<exists>result parts.
      generatePartitions int4_catalog (int_rel PARTITION_STRATEGY_LIST)
        [ElemNode (list_elem ''b'' [3, 4] None None []), ElemNode (default_elem ''other''),
         ElemNode (list_elem ''a'' [1] None None [])] None [] None [] = Some (Inr result)
    \<and> length parts = 3
    \<and> result = concat parts
    \<and> map (\<lambda>s. relname (relation s)) result = [''t_1_prt_other'', ''t_1_prt_b'', ''t_1_prt_a'']"
proof -
  let ?rel = "int_rel PARTITION_STRATEGY_LIST"
  let ?nodes = "[ElemNode (list_elem ''b'' [3, 4] None None []), ElemNode (default_elem ''other''),
                 ElemNode (list_elem ''a'' [1] None None [])]"
  have "map_option (map_sum id (map (\<lambda>s. relname (relation s))))
          (generatePartitions int4_catalog ?rel ?nodes None [] None [])
        = Some (Inr [''t_1_prt_other'', ''t_1_prt_b'', ''t_1_prt_a''])"
    by code_simp
  then obtain result where
    run: "generatePartitions int4_catalog ?rel ?nodes None [] None [] = Some (Inr result)"
    and names: "map (\<lambda>s. relname (relation s)) result
                  = [''t_1_prt_other'', ''t_1_prt_b'', ''t_1_prt_a'']"
    by (cases "generatePartitions int4_catalog ?rel ?nodes None [] None []")
      (auto simp: map_sum_def split: sum.splits)
  have st: "key_strategy (rd_partkey ?rel) \<noteq> PARTITION_STRATEGY_RANGE"
    by (simp add: int_rel_def int_key_def)
  from generatePartitions_order [OF run] st
  obtain parts :: "(unit, int) CreateStmt list list" and isT po penc where
    all: "list_all2
             (\<lambda>elem part. \<exists>pc pc'.
                 generate_for_elem int4_catalog ?rel None isT po None penc elem pc
                   = Some (Inr (part, pc')))
             (filter isDefault (elem_nodes ?nodes) @ filter (\<lambda>e. \<not> isDefault e) (elem_nodes ?nodes))
             parts"
    and cc: "result = concat parts"
    by blast
  from list_all2_lengthD [OF all] have len: "length parts = 3"
    by (simp add: list_elem_def default_elem_def)
  show ?thesis
    by (rule exI [of _ result], rule exI [of _ parts]) (simp add: run len cc [symmetric] names)
qed

text \<open>
  C6 as stated fails for RANGE: for \<^verbatim>\<open>PARTITION b START (10) END (20)\<close> declared before
  \<^verbatim>\<open>PARTITION a START (1) END (10)\<close> the statements are generated in that order, and the
  list returned has \<open>a\<close> first: the comparator puts \<open>b\<close> after \<open>a\<close>.
\<close>

theorem generatePartitions_range_sorted_counterexample:
  "map_option (map_sum id bounds_of)
     (generatePartitions int4_catalog (int_rel PARTITION_STRATEGY_RANGE)
        [ElemNode (range_elem (Some ''b'') [10] [20] False [] []),
         ElemNode (range_elem (Some ''a'') [1] [10] False [] [])] None [] None [])
   = Some (Inr [(''t_1_prt_a'', [Const 1 False], [Const 10 False]),
                (''t_1_prt_b'', [Const 10 False], [Const 20 False])])
   \<and> map_option (map_sum id bounds_of)
     (generate_for_elems int4_catalog (int_rel PARTITION_STRATEGY_RANGE) None False [] None []
        [range_elem (Some ''b'') [10] [20] False [] [],
         range_elem (Some ''a'') [1] [10] False [] []] first_partcomp [])
   = Some (Inr [(''t_1_prt_b'', [Const 10 False], [Const 20 False]),
                (''t_1_prt_a'', [Const 1 False], [Const 10 False])])
   \<and> qsort_stmt_cmp (int_key PARTITION_STRATEGY_RANGE)
        (bound_stmt ''t_1_prt_b'' False [10] [20]) (bound_stmt ''t_1_prt_a'' False [1] [10])
      = Some 1"
  by code_simp

end
